theory Spec2Isabelle
  imports Main "HOL-Library.Sublist"
begin

section \<open>Python text primitives\<close>

text \<open>
  Text is a \<open>string\<close> whose characters are the code points 0 to 255; the
  classification of characters is Python's on that range. A text file is held as the
  characters stored in it; reading it in text mode translates its line ends.
\<close>

abbreviation NL :: char where
  "NL \<equiv> CHR 0x0A"

abbreviation CR :: char where
  "CR \<equiv> CHR 0x0D"

text \<open>
  \<open>str.isspace\<close> on one character: tab, LF, VT, FF, CR, FS, GS, RS, US, space, NEL and
  the no-break space.
\<close>

definition isspace :: "char \<Rightarrow> bool" where
  "isspace c = (c \<in> {CHR 0x09, CHR 0x0A, CHR 0x0B, CHR 0x0C, CHR 0x0D,
                      CHR 0x1C, CHR 0x1D, CHR 0x1E, CHR 0x1F, CHR 0x20, CHR 0x85, CHR 0xA0})"

text \<open>
  The line boundaries of \<open>str.splitlines\<close>: LF, VT, FF, CR, FS, GS, RS, NEL (and CR LF).
\<close>

definition is_linebreak :: "char \<Rightarrow> bool" where
  "is_linebreak c = (c \<in> {CHR 0x0A, CHR 0x0B, CHR 0x0C, CHR 0x0D,
                           CHR 0x1C, CHR 0x1D, CHR 0x1E, CHR 0x85})"

text \<open>
  \<open>str.isalnum\<close> on one character: the ASCII digits and letters, and the letters and
  numeric characters of the range 170 to 255.
\<close>

definition isalnum_char :: "char \<Rightarrow> bool" where
  "isalnum_char c = (let n = of_char c :: nat in
     (48 \<le> n \<and> n \<le> 57) \<or> (65 \<le> n \<and> n \<le> 90) \<or> (97 \<le> n \<and> n \<le> 122) \<or>
     n = 170 \<or> (178 \<le> n \<and> n \<le> 179) \<or> n = 181 \<or> (185 \<le> n \<and> n \<le> 186) \<or>
     (188 \<le> n \<and> n \<le> 190) \<or> (192 \<le> n \<and> n \<le> 214) \<or> (216 \<le> n \<and> n \<le> 246) \<or>
     (248 \<le> n \<and> n \<le> 255))"

text \<open>\<open>s.isalnum()\<close>: every character alphanumeric and at least one character.\<close>

definition isalnum :: "string \<Rightarrow> bool" where
  "isalnum s = (s \<noteq> [] \<and> list_all isalnum_char s)"

text \<open>\<open>s.replace(c, '')\<close> for a one-character \<open>c\<close>.\<close>

definition remove_char :: "char \<Rightarrow> string \<Rightarrow> string" where
  "remove_char c s = filter (\<lambda>d. d \<noteq> c) s"

definition lstrip :: "string \<Rightarrow> string" where
  "lstrip s = dropWhile isspace s"

definition strip :: "string \<Rightarrow> string" where
  "strip s = rev (dropWhile isspace (rev (dropWhile isspace s)))"

text \<open>\<open>sub in s\<close> on two strings: \<open>sub\<close> occurs in \<open>s\<close> as a contiguous piece.\<close>

fun str_in :: "string \<Rightarrow> string \<Rightarrow> bool" where
  "str_in sub [] = (sub = [])"
| "str_in sub (c # cs) = (prefix sub (c # cs) \<or> str_in sub cs)"

text \<open>
  \<open>s.splitlines(keepends=True)\<close>: the lines of \<open>s\<close>, each with its terminator; the
  first argument is the line being collected.
\<close>

fun splitlines_from :: "string \<Rightarrow> string \<Rightarrow> string list" where
  "splitlines_from acc [] = (if acc = [] then [] else [acc])"
| "splitlines_from acc [c] = [acc @ [c]]"
| "splitlines_from acc (c # d # cs) =
     (if c = CR \<and> d = NL then (acc @ [c, d]) # splitlines_from [] cs
      else if is_linebreak c then (acc @ [c]) # splitlines_from [] (d # cs)
      else splitlines_from (acc @ [c]) (d # cs))"

definition splitlines :: "string \<Rightarrow> string list" where
  "splitlines s = splitlines_from [] s"

text \<open>
  What reading in text mode (\<open>newline=None\<close>) makes of the stored characters: CR LF and
  a lone CR become LF.
\<close>

fun universal_newlines :: "string \<Rightarrow> string" where
  "universal_newlines [] = []"
| "universal_newlines [c] = (if c = CR then [NL] else [c])"
| "universal_newlines (c # d # cs) =
     (if c = CR \<and> d = NL then NL # universal_newlines cs
      else if c = CR then NL # universal_newlines (d # cs)
      else c # universal_newlines (d # cs))"

text \<open>
  \<open>s.replace(old, new)\<close> for a non-empty \<open>old\<close>: every occurrence, left to right,
  without overlap.
\<close>

fun str_replace :: "string \<Rightarrow> string \<Rightarrow> string \<Rightarrow> string" where
  "str_replace old new [] = []"
| "str_replace old new (c # cs) =
     (if old \<noteq> [] \<and> prefix old (c # cs)
      then new @ str_replace old new (drop (length old - 1) cs)
      else c # str_replace old new cs)"

section \<open>Paths\<close>

type_synonym path = string

text \<open>
  \<open>Path(a) / b\<close> on normalised paths: an absolute right operand replaces the left one.
\<close>

definition path_join :: "path \<Rightarrow> string \<Rightarrow> path" where
  "path_join a b =
     (if prefix ''/'' b then b
      else if a = [] then b
      else if suffix ''/'' a then a @ b
      else a @ ''/'' @ b)"

section \<open>YAML documents as Python objects\<close>

text \<open>
  What \<open>yaml.safe_load\<close> returns: \<open>None\<close>, a number, a string, a list or a dict with
  string keys, kept in insertion order.
\<close>

datatype yaml =
    YNull
  | YInt int
  | YStr string
  | YList "yaml list"
  | YMap "(string \<times> yaml) list"

datatype cmd = Cmd (argv: "string list") (cwd: "path option")

text \<open>The exceptions of a run; \<open>SystemExit\<close> is what \<open>sys.exit\<close> raises.\<close>

datatype exn =
    CalledProcessError int cmd
  | FileNotFoundError path
  | TypeError
  | KeyError string
  | SystemExit int

text \<open>\<open>d[k] = v\<close> on a dict: replace the value of an existing key, else append.\<close>

fun dict_set :: "('k \<times> 'v) list \<Rightarrow> 'k \<Rightarrow> 'v \<Rightarrow> ('k \<times> 'v) list" where
  "dict_set [] k v = [(k, v)]"
| "dict_set ((k', v') # kvs) k v =
     (if k' = k then (k, v) # kvs else (k', v') # dict_set kvs k v)"

text \<open>\<open>k in obj\<close> for a string \<open>k\<close>.\<close>

fun py_in :: "string \<Rightarrow> yaml \<Rightarrow> exn + bool" where
  "py_in k YNull = Inl TypeError"
| "py_in k (YInt n) = Inl TypeError"
| "py_in k (YStr s) = Inr (str_in k s)"
| "py_in k (YList xs) = Inr (YStr k \<in> set xs)"
| "py_in k (YMap kvs) = Inr (k \<in> fst ` set kvs)"

text \<open>\<open>obj[k]\<close> for a string \<open>k\<close>.\<close>

fun py_getitem :: "yaml \<Rightarrow> string \<Rightarrow> exn + yaml" where
  "py_getitem (YMap kvs) k =
     (case map_of kvs k of None \<Rightarrow> Inl (KeyError k) | Some v \<Rightarrow> Inr v)"
| "py_getitem obj k = Inl TypeError"

text \<open>\<open>obj[k] = v\<close> for a string \<open>k\<close>.\<close>

fun py_setitem :: "yaml \<Rightarrow> string \<Rightarrow> yaml \<Rightarrow> exn + yaml" where
  "py_setitem (YMap kvs) k v = Inr (YMap (dict_set kvs k v))"
| "py_setitem obj k v = Inl TypeError"

section \<open>The world outside the process\<close>

text \<open>
  A finished child process: its exit status and what it wrote to standard output.
\<close>

record proc =
  returncode :: int
  stdout :: string

text \<open>
  One entry of the trace: the command that was started, whether its caller asked for
  failure checking, and the exit status it ended with.
\<close>

datatype event = Event (command: cmd) (checked: bool) (status: int)

text \<open>
  A git tree holds, per path, the text and the document staged or committed for it.
\<close>

type_synonym tree = "(path \<times> (string option \<times> yaml option)) list"

text \<open>
  The world a run acts on: the commands started so far, the directories that exist, the
  text files, the YAML files (as the documents they hold), the index, the head commit
  and the commits made in the working copy the inventory lives in, the programs found
  on the search path, and the lines printed on standard error.
\<close>

record world =
  trace :: "event list"
  dirs :: "path set"
  files :: "path \<Rightarrow> string option"
  docs :: "path \<Rightarrow> yaml option"
  index :: tree
  head :: tree
  commits :: "cmd list"
  installed :: "string set"
  errors :: "string list"

text \<open>
  An external program is a function from the command and the world it starts in to its
  outcome and the world it leaves.
\<close>

type_synonym system = "cmd \<Rightarrow> world \<Rightarrow> proc \<times> world"

text \<open>
  A Python computation: it runs in a world and either raises or returns, and in both
  cases leaves a world behind.
\<close>

type_synonym 'a py = "world \<Rightarrow> (exn + 'a) \<times> world"

definition ret :: "'a \<Rightarrow> 'a py" where
  "ret a w = (Inr a, w)"

definition raise :: "exn \<Rightarrow> 'a py" where
  "raise e w = (Inl e, w)"

definition lift :: "exn + 'a \<Rightarrow> 'a py" where
  "lift r w = (r, w)"

definition bind :: "'a py \<Rightarrow> ('a \<Rightarrow> 'b py) \<Rightarrow> 'b py" where
  "bind m k w = (case m w of (Inl e, w') \<Rightarrow> (Inl e, w') | (Inr a, w') \<Rightarrow> k a w')"

text \<open>\<open>if cond(world): body\<close>, for a condition that reads the world.\<close>

definition py_when :: "(world \<Rightarrow> bool) \<Rightarrow> 'a py \<Rightarrow> unit py" where
  "py_when c m w = (if c w then bind m (\<lambda>_. ret ()) w else ret () w)"

definition path_exists :: "path \<Rightarrow> world \<Rightarrow> bool" where
  "path_exists p w = (p \<in> dirs w \<or> files w p \<noteq> None \<or> docs w p \<noteq> None)"

text \<open>
  \<open>Path.read_text()\<close> and \<open>open(p).read()\<close>: the stored characters with the line ends
  translated. \<open>Path.write_text(s)\<close> and \<open>open(p, "w").write(s)\<close> on a POSIX system,
  where the scripts run (they work under \<open>/tmp\<close>): the characters of \<open>s\<close> are stored as
  they are. A text with a CR in it therefore does not read back as it was written.
\<close>

definition read_text :: "path \<Rightarrow> string py" where
  "read_text p w =
     (case files w p of
        None \<Rightarrow> (Inl (FileNotFoundError p), w)
      | Some s \<Rightarrow> (Inr (universal_newlines s), w))"

definition write_text :: "path \<Rightarrow> string \<Rightarrow> unit py" where
  "write_text p s w = (Inr (), w\<lparr>files := (files w)(p \<mapsto> s)\<rparr>)"

definition safe_load :: "path \<Rightarrow> yaml py" where
  "safe_load p w =
     (case docs w p of None \<Rightarrow> (Inl (FileNotFoundError p), w) | Some d \<Rightarrow> (Inr d, w))"

definition safe_dump :: "yaml \<Rightarrow> path \<Rightarrow> unit py" where
  "safe_dump d p w = (Inr (), w\<lparr>docs := (docs w)(p \<mapsto> d)\<rparr>)"

text \<open>\<open>stderr_console.print\<close>, without the colour markup.\<close>

definition stderr_print :: "string \<Rightarrow> unit py" where
  "stderr_print s w = (Inr (), w\<lparr>errors := errors w @ [s]\<rparr>)"

text \<open>\<open>sep.join(xs)\<close>.\<close>

fun join :: "string \<Rightarrow> string list \<Rightarrow> string" where
  "join sep [] = []"
| "join sep [x] = x"
| "join sep (x # y # ys) = x @ sep @ join sep (y # ys)"

section \<open>CommandRunner\<close>

text \<open>
  \<open>run(cmd, cwd, check)\<close>: start the process and wait for it; when \<open>check\<close> is set
  and the exit status is not zero, print \<open>Command failed\<close> and raise
  \<open>CalledProcessError\<close>, else return the exit status. Debug mode and the log file
  decide only where the child's output goes. The command enters the trace whatever
  its outcome.
\<close>

definition run :: "system \<Rightarrow> cmd \<Rightarrow> bool \<Rightarrow> int py" where
  "run X c check w =
     (let (p, w') = X c w;
          w'' = w'\<lparr>trace := trace w @ [Event c check (returncode p)]\<rparr>
      in if check \<and> returncode p \<noteq> 0
         then (Inl (CalledProcessError (returncode p) c),
               w''\<lparr>errors := errors w'' @ [''Command failed: '' @ join '' '' (argv c)]\<rparr>)
         else (Inr (returncode p), w''))"

text \<open>
  \<open>subprocess.run(cmd, capture_output=True, text=True, check=False)\<close>: the finished
  process, never an exception for its exit status.
\<close>

definition subprocess_run :: "system \<Rightarrow> cmd \<Rightarrow> proc py" where
  "subprocess_run X c w =
     (let (p, w') = X c w
      in (Inr p, w'\<lparr>trace := trace w @ [Event c False (returncode p)]\<rparr>))"

section \<open>InventoryManager\<close>

record inventory_manager =
  ansible_config_root :: path
  inventory_file :: path
  emails_file :: path

definition InventoryManager :: "path \<Rightarrow> inventory_manager" where
  "InventoryManager root =
     \<lparr>ansible_config_root = root,
      inventory_file = path_join root ''inventory.yml'',
      emails_file = path_join root ''group_vars/all/emails.yml''\<rparr>"

subsection \<open>Provisioning: adding a host\<close>

text \<open>
  The loop of \<open>add_host_to_inventory\<close>: every line is copied; after the first line
  whose stripped text is \<open>hosts:\<close> the new key is added, indented two columns past
  that line.
\<close>

fun insert_host :: "string \<Rightarrow> bool \<Rightarrow> string list \<Rightarrow> string list" where
  "insert_host full_hostname inserted [] = []"
| "insert_host full_hostname inserted (line # lines) =
     (if \<not> inserted \<and> strip line = ''hosts:''
      then line #
           (replicate (length line - length (lstrip line) + 2) CHR '' '' @
              full_hostname @ [CHR '':'', NL]) #
           insert_host full_hostname True lines
      else line # insert_host full_hostname inserted lines)"

definition add_host_to_inventory :: "inventory_manager \<Rightarrow> string \<Rightarrow> unit py" where
  "add_host_to_inventory self full_hostname =
     bind (read_text (inventory_file self)) (\<lambda>text.
       write_text (inventory_file self)
         (concat (insert_host full_hostname False (splitlines text))))"

definition add_email_for_host :: "inventory_manager \<Rightarrow> string \<Rightarrow> string \<Rightarrow> bool py" where
  "add_email_for_host self full_hostname email =
     bind (safe_load (emails_file self)) (\<lambda>emails.
     bind (lift (py_in ''host_emails'' emails)) (\<lambda>has_map.
     bind (if \<not> has_map then lift (py_setitem emails ''host_emails'' (YMap []))
           else ret emails) (\<lambda>emails.
     bind (lift (py_getitem emails ''host_emails'')) (\<lambda>host_emails.
     bind (lift (py_in full_hostname host_emails)) (\<lambda>has_host.
       if \<not> has_host
       then bind (lift (py_setitem host_emails full_hostname (YStr email))) (\<lambda>host_emails.
            bind (lift (py_setitem emails ''host_emails'' host_emails)) (\<lambda>emails.
            bind (safe_dump emails (emails_file self)) (\<lambda>_. ret True)))
       else ret False)))))"

definition ensure_host :: "system \<Rightarrow> inventory_manager \<Rightarrow> string \<Rightarrow> string \<Rightarrow> unit py" where
  "ensure_host X self full_hostname email =
     bind (read_text (inventory_file self)) (\<lambda>inventory_lines.
     bind (if \<not> str_in (full_hostname @ '':'') inventory_lines
           then add_host_to_inventory self full_hostname else ret ()) (\<lambda>_.
     bind (add_email_for_host self full_hostname email) (\<lambda>_.
     bind (run X (Cmd [''git'', ''add'', inventory_file self, emails_file self]
                   (Some (ansible_config_root self))) True) (\<lambda>_.
     bind (run X (Cmd [''git'', ''commit'', ''-m'',
                       ''Add '' @ full_hostname @ '' to inventory and emails.yml'']
                   (Some (ansible_config_root self))) False) (\<lambda>_.
     bind (run X (Cmd [''git'', ''push'', ''origin'', ''simple'']
                   (Some (ansible_config_root self))) True) (\<lambda>_. ret ()))))))"

subsection \<open>Decommissioning: removing a host\<close>

abbreviation DQ :: char where
  "DQ \<equiv> CHR 0x22"

text \<open>
  \<open>remove_host_from_inventory\<close> and \<open>remove_email_for_host\<close> return a bool;
  \<open>remove_host\<close> has no return statement, so the value it returns is \<open>None\<close>.
\<close>

text \<open>The two yq expressions, as the f-strings build them.\<close>

definition has_expr :: "string \<Rightarrow> string \<Rightarrow> string" where
  "has_expr p k = p @ '' | has('' @ [DQ] @ k @ [DQ] @ '')''"

definition del_expr :: "string \<Rightarrow> string \<Rightarrow> string" where
  "del_expr p k = ''del('' @ p @ ''.'' @ [DQ] @ k @ [DQ] @ '')''"

definition remove_host_from_inventory :: "system \<Rightarrow> inventory_manager \<Rightarrow> string \<Rightarrow> bool py" where
  "remove_host_from_inventory X self full_hostname w =
     (if \<not> path_exists (inventory_file self) w then ret False w
      else bind (subprocess_run X
                  (Cmd [''yq'', ''eval'',
                        has_expr ''.all.hosts'' full_hostname,
                        inventory_file self] None)) (\<lambda>result.
             if str_in ''true'' (stdout result)
             then bind (run X
                         (Cmd [''yq'', ''eval'',
                               del_expr ''.all.hosts'' full_hostname,
                               ''-i'', inventory_file self] None) True) (\<lambda>_. ret True)
             else ret False) w)"

definition remove_email_for_host :: "system \<Rightarrow> inventory_manager \<Rightarrow> string \<Rightarrow> bool py" where
  "remove_email_for_host X self full_hostname w =
     (if \<not> path_exists (emails_file self) w then ret False w
      else bind (subprocess_run X
                  (Cmd [''yq'', ''eval'',
                        has_expr ''.host_emails'' full_hostname,
                        emails_file self] None)) (\<lambda>result.
             if str_in ''true'' (stdout result)
             then bind (run X
                         (Cmd [''yq'', ''eval'',
                               del_expr ''.host_emails'' full_hostname,
                               ''-i'', emails_file self] None) True) (\<lambda>_. ret True)
             else ret False) w)"

definition remove_host :: "system \<Rightarrow> inventory_manager \<Rightarrow> string \<Rightarrow> bool option py" where
  "remove_host X self full_hostname =
     bind (remove_host_from_inventory X self full_hostname) (\<lambda>inventory_removed.
     bind (remove_email_for_host X self full_hostname) (\<lambda>emails_removed.
       if inventory_removed \<or> emails_removed
       then bind (run X (Cmd [''git'', ''add'', inventory_file self, emails_file self]
                          (Some (ansible_config_root self))) True) (\<lambda>_.
            bind (run X (Cmd [''git'', ''commit'', ''-m'',
                              ''Remove '' @ full_hostname @
                              '' from host_emails in emails.yml and inventory.yml'']
                          (Some (ansible_config_root self))) False) (\<lambda>_.
            bind (run X (Cmd [''git'', ''push'', ''origin'', ''simple'']
                          (Some (ansible_config_root self))) True) (\<lambda>_. ret None)))
       else ret None))"

section \<open>The external tools\<close>

text \<open>
  git, as far as the inventory manager drives it. \<open>git add p ...\<close> stages the
  present content of the named paths. \<open>git commit\<close> records the index as the new
  head when the two differ, and ends with status 1 when there is nothing to commit.
  Every other command leaves the working copy as it is. \<open>fault\<close> is the status the
  environment imposes on a command for reasons of its own (0 for none); a command
  it fails changes nothing.
\<close>

definition stage :: "path list \<Rightarrow> world \<Rightarrow> tree" where
  "stage ps w = fold (\<lambda>p t. dict_set t p (files w p, docs w p)) ps (index w)"

definition git :: "(cmd \<Rightarrow> int) \<Rightarrow> system" where
  "git fault c w =
     (if fault c \<noteq> 0 then (\<lparr>returncode = fault c, stdout = []\<rparr>, w)
      else if take 2 (argv c) = [''git'', ''add'']
      then (\<lparr>returncode = 0, stdout = []\<rparr>, w\<lparr>index := stage (drop 2 (argv c)) w\<rparr>)
      else if take 2 (argv c) = [''git'', ''commit'']
      then (if index w = head w
            then (\<lparr>returncode = 1, stdout = ''nothing to commit''\<rparr>, w)
            else (\<lparr>returncode = 0, stdout = []\<rparr>,
                  w\<lparr>head := index w, commits := commits w @ [c]\<rparr>))
      else (\<lparr>returncode = 0, stdout = []\<rparr>, w))"

text \<open>
  yq, for the two expressions the decommissioning script evaluates: \<open>P | has("K")\<close>
  prints whether the mapping at path \<open>P\<close> has the key \<open>K\<close>, and \<open>del(P."K")\<close> with
  \<open>-i\<close> deletes that key in the file; on a file that holds no document yq fails with
  status 1 and prints nothing. Any other command is left to \<open>X\<close>.
\<close>

definition yaml_get :: "string list \<Rightarrow> yaml \<Rightarrow> yaml option" where
  "yaml_get ks d =
     fold (\<lambda>k acc. case acc of Some (YMap kvs) \<Rightarrow> map_of kvs k | _ \<Rightarrow> None) ks (Some d)"

definition has_key :: "string list \<Rightarrow> string \<Rightarrow> yaml \<Rightarrow> bool" where
  "has_key ks k d =
     (case yaml_get ks d of Some (YMap kvs) \<Rightarrow> k \<in> fst ` set kvs | _ \<Rightarrow> False)"

fun del_key :: "string \<Rightarrow> yaml \<Rightarrow> yaml" where
  "del_key k (YMap kvs) = YMap (filter (\<lambda>kv. fst kv \<noteq> k) kvs)"
| "del_key k d = d"

fun update_at :: "string \<Rightarrow> (yaml \<Rightarrow> yaml) \<Rightarrow> yaml \<Rightarrow> yaml" where
  "update_at k f (YMap kvs) =
     YMap (map (\<lambda>kv. if fst kv = k then (fst kv, f (snd kv)) else kv) kvs)"
| "update_at k f d = d"

definition yaml_del :: "string list \<Rightarrow> string \<Rightarrow> yaml \<Rightarrow> yaml" where
  "yaml_del ks k = foldr update_at ks (del_key k)"

definition between :: "string \<Rightarrow> string \<Rightarrow> string \<Rightarrow> string option" where
  "between pre suf s =
     (if prefix pre s \<and> suffix suf (drop (length pre) s)
      then Some (take (length s - length pre - length suf) (drop (length pre) s))
      else None)"

definition yq_has :: "string \<Rightarrow> (string list \<times> string) option" where
  "yq_has expr =
     (case between (''.all.hosts | has('' @ [DQ]) ([DQ] @ '')'') expr of
        Some k \<Rightarrow> Some ([''all'', ''hosts''], k)
      | None \<Rightarrow>
         (case between (''.host_emails | has('' @ [DQ]) ([DQ] @ '')'') expr of
            Some k \<Rightarrow> Some ([''host_emails''], k)
          | None \<Rightarrow> None))"

definition yq_del :: "string \<Rightarrow> (string list \<times> string) option" where
  "yq_del expr =
     (case between (''del(.all.hosts.'' @ [DQ]) ([DQ] @ '')'') expr of
        Some k \<Rightarrow> Some ([''all'', ''hosts''], k)
      | None \<Rightarrow>
         (case between (''del(.host_emails.'' @ [DQ]) ([DQ] @ '')'') expr of
            Some k \<Rightarrow> Some ([''host_emails''], k)
          | None \<Rightarrow> None))"

definition yq :: "system \<Rightarrow> system" where
  "yq X c w =
     (let a = argv c in
      if length a = 4 \<and> take 2 a = [''yq'', ''eval'']
      then (case yq_has (a ! 2) of
              None \<Rightarrow> X c w
            | Some (ks, k) \<Rightarrow>
               (case docs w (a ! 3) of
                  None \<Rightarrow> (\<lparr>returncode = 1, stdout = []\<rparr>, w)
                | Some d \<Rightarrow>
                   (\<lparr>returncode = 0,
                     stdout = (if has_key ks k d then ''true'' else ''false'') @ [NL]\<rparr>, w)))
      else if length a = 5 \<and> take 2 a = [''yq'', ''eval''] \<and> a ! 3 = ''-i''
      then (case yq_del (a ! 2) of
              None \<Rightarrow> X c w
            | Some (ks, k) \<Rightarrow>
               (case docs w (a ! 4) of
                  None \<Rightarrow> (\<lparr>returncode = 1, stdout = []\<rparr>, w)
                | Some d \<Rightarrow>
                   (\<lparr>returncode = 0, stdout = []\<rparr>,
                    w\<lparr>docs := (docs w)(a ! 4 \<mapsto> yaml_del ks k d)\<rparr>)))
      else X c w)"

text \<open>Whether a host has a key in the host list, and in the contact mapping, of a file.\<close>

definition host_listed :: "string \<Rightarrow> path \<Rightarrow> world \<Rightarrow> bool" where
  "host_listed h p w =
     (case docs w p of None \<Rightarrow> False | Some d \<Rightarrow> has_key [''all'', ''hosts''] h d)"

definition email_listed :: "string \<Rightarrow> path \<Rightarrow> world \<Rightarrow> bool" where
  "email_listed h p w =
     (case docs w p of None \<Rightarrow> False | Some d \<Rightarrow> has_key [''host_emails''] h d)"

text \<open>The git commands among the commands started so far.\<close>

definition git_commands :: "world \<Rightarrow> cmd list" where
  "git_commands w = filter (\<lambda>c. take 1 (argv c) = [''git'']) (map command (trace w))"

section \<open>Configuration\<close>

definition DEFAULT_ANSIBLE_CFG_BRANCH :: string where
  "DEFAULT_ANSIBLE_CFG_BRANCH = ''simple''"

definition DEFAULT_TERRAMATE_CLOUD_REPO :: string where
  "DEFAULT_TERRAMATE_CLOUD_REPO = ''git@github.com:aops-ba/terramate-cloud.git''"

definition DEFAULT_ANSIBLE_CONFIG_REPO :: string where
  "DEFAULT_ANSIBLE_CONFIG_REPO = ''git@github.com:aops-ba/ansible-cfg.git''"

definition DEFAULT_EMAIL :: string where
  "DEFAULT_EMAIL = ''devops@artofproblemsolving.com''"

definition DEFAULT_STACK_ACCOUNT_PATH :: string where
  "DEFAULT_STACK_ACCOUNT_PATH = ''stacks/accounts/aops_dev.487718497406''"

text \<open>
  What a script is started with: the parsed arguments, the environment, the home
  directory and the script's own directory (both enter default paths), and the eight
  hexadecimal digits drawn for the names of the working copies.
\<close>

record invocation =
  arg_prefix :: string
  arg_ci :: bool
  arg_debug :: bool
  environ :: "string \<Rightarrow> string option"
  home :: path
  script_dir :: path
  unique_id :: string

definition DEFAULT_VAULT_PASSWORD_FILE :: "invocation \<Rightarrow> string" where
  "DEFAULT_VAULT_PASSWORD_FILE a = path_join (home a) ''.aops_ansible_vault_pw''"

definition DEFAULT_BOOTSTRAP_SSH_KEY :: "invocation \<Rightarrow> string" where
  "DEFAULT_BOOTSTRAP_SSH_KEY a = path_join (home a) ''.ssh/bootstrap_key''"

definition DEFAULT_ANSIBLECONTROL_SSH_KEY :: "invocation \<Rightarrow> string" where
  "DEFAULT_ANSIBLECONTROL_SSH_KEY a = path_join (home a) ''.ssh/ansible_control_key''"

definition DEFAULT_TERRAFORM_TEMPLATE_FILE :: "invocation \<Rightarrow> string" where
  "DEFAULT_TERRAFORM_TEMPLATE_FILE a = path_join (script_dir a) ''test_instance.tf.template''"

text \<open>The truth value of an optional string: set and not empty.\<close>

definition truthy :: "string option \<Rightarrow> bool" where
  "truthy v = (case v of None \<Rightarrow> False | Some s \<Rightarrow> s \<noteq> [])"

text \<open>\<open>v or d\<close> for an optional string \<open>v\<close>.\<close>

definition py_or :: "string option \<Rightarrow> string \<Rightarrow> string" where
  "py_or v d = (case v of None \<Rightarrow> d | Some s \<Rightarrow> if s = [] then d else s)"

text \<open>
  \<open>get_env(var, default)\<close>, with \<open>required\<close> left at \<open>False\<close>: the variable's value,
  or the default when it is not set. This call cannot exit.
\<close>

definition get_env :: "invocation \<Rightarrow> string \<Rightarrow> string \<Rightarrow> string" where
  "get_env a var dflt = (case environ a var of None \<Rightarrow> dflt | Some v \<Rightarrow> v)"

text \<open>
  \<open>get_env(var, required=True)\<close>, with no default: the variable's value; when it is
  not set or empty, the error is printed and the process exits with status 1.
\<close>

definition get_env_required :: "invocation \<Rightarrow> string \<Rightarrow> string option py" where
  "get_env_required a var =
     (let val = environ a var in
      if \<not> truthy val
      then bind (stderr_print (''ERROR: '' @ var @ '' is required but not set.''))
             (\<lambda>_. raise (SystemExit 1))
      else ret val)"

section \<open>Repository workspaces\<close>

definition clone_terramate_repo :: "system \<Rightarrow> string \<Rightarrow> path \<Rightarrow> path py" where
  "clone_terramate_repo X repo_url path =
     bind (run X (Cmd [''git'', ''clone'', repo_url, path] None) True) (\<lambda>_. ret path)"

definition clone_ansible_repo :: "system \<Rightarrow> string \<Rightarrow> path \<Rightarrow> string \<Rightarrow> path py" where
  "clone_ansible_repo X repo_url path branch =
     bind (run X (Cmd [''git'', ''clone'', repo_url, path] None) True) (\<lambda>_.
     bind (run X (Cmd [''git'', ''checkout'', branch] (Some path)) True) (\<lambda>_. ret path))"

section \<open>The provisioning pipeline\<close>

text \<open>
  The step functions with their timing decorator taken off: the decorator runs the
  function and prints a line. The prompts between the stages and what is printed on
  standard output are left out; they start no command and change no file.
\<close>

definition create_and_apply_terraform_stack ::
  "system \<Rightarrow> path \<Rightarrow> path \<Rightarrow> string \<Rightarrow> string \<Rightarrow> path \<Rightarrow> bool \<Rightarrow> path py" where
  "create_and_apply_terraform_stack X stack_path terramate_cloud_path pfx full_hostname
       terraform_template_file ci =
     bind (py_when (\<lambda>w. \<not> path_exists stack_path w)
            (run X (Cmd [''terramate'', ''create'',
                         ''stacks/accounts/aops_dev.487718497406/'' @ full_hostname]
                     (Some terramate_cloud_path)) True)) (\<lambda>_.
     bind (py_when (\<lambda>w. \<not> path_exists (path_join stack_path ''main.tf'') w)
            (bind (read_text terraform_template_file) (\<lambda>src w.
               if stack_path \<in> dirs w
               then write_text (path_join stack_path ''main.tf'')
                      (str_replace ''TERRAFORM_STACK_PREFIX_PLACEHOLDER'' pfx src) w
               else raise (FileNotFoundError (path_join stack_path ''main.tf'')) w))) (\<lambda>_.
     bind (run X (Cmd [''git'', ''add'', ''.''] (Some terramate_cloud_path)) True) (\<lambda>_.
     bind (run X (Cmd [''git'', ''commit'', ''-m'',
                       ''Create or update test instance '' @ full_hostname]
                   (Some terramate_cloud_path)) False) (\<lambda>_.
     bind (run X (Cmd [''git'', ''push'', ''origin'', ''main'']
                   (Some terramate_cloud_path)) True) (\<lambda>_.
     bind (run X (Cmd [''terraform'', ''init''] (Some stack_path)) True) (\<lambda>_.
     bind (run X (Cmd ([''terraform'', ''apply''] @ (if ci then [''-auto-approve''] else []))
                   (Some stack_path)) True) (\<lambda>_. ret stack_path)))))))"

definition add_to_ansible_inventory :: "system \<Rightarrow> path \<Rightarrow> string \<Rightarrow> string \<Rightarrow> path py" where
  "add_to_ansible_inventory X config_root full_hostname email =
     bind (ensure_host X (InventoryManager config_root) full_hostname email)
       (\<lambda>_. ret config_root)"

definition run_ansible ::
  "system \<Rightarrow> path \<Rightarrow> string \<Rightarrow> string \<Rightarrow> string \<Rightarrow> string \<Rightarrow> string py" where
  "run_ansible X config_root full_hostname bootstrap_ssh_key ansiblecontrol_ssh_key
       vault_password_file =
     bind (run X (Cmd [''ansible-playbook'', ''initial_setup.yml'',
                       ''--private-key'', bootstrap_ssh_key,
                       ''--limit'', full_hostname,
                       ''--vault-password-file'', vault_password_file,
                       ''--ssh-common-args'',
                       ''-o UserKnownHostsFile=/dev/null -o StrictHostKeyChecking=no'']
                   (Some config_root)) True) (\<lambda>_.
     bind (run X (Cmd [''ansible-playbook'', ''web_setup.yml'',
                       ''--private-key'', ansiblecontrol_ssh_key,
                       ''--limit'', full_hostname,
                       ''--vault-password-file'', vault_password_file,
                       ''--ssh-common-args'',
                       ''-o UserKnownHostsFile=/dev/null -o StrictHostKeyChecking=no'']
                   (Some config_root)) True) (\<lambda>_. ret full_hostname))"

definition import_db :: "system \<Rightarrow> string \<Rightarrow> string py" where
  "import_db X full_hostname =
     bind (run X (Cmd [''ssh-import-db.sh'', full_hostname] None) True)
       (\<lambda>_. ret full_hostname)"

text \<open>The tones played after a successful run, when \<open>play\<close> is installed.\<close>

definition play_tones :: "system \<Rightarrow> string list \<Rightarrow> unit py" where
  "play_tones X freqs =
     py_when (\<lambda>w. ''play'' \<in> installed w)
       (fold (\<lambda>freq m.
          bind m (\<lambda>_. bind (run X (Cmd [''play'', ''-q'', ''-n'', ''synth'', ''0.1'', ''sin'', freq]
                                  None) False) (\<lambda>_. ret ())))
          freqs (ret ()))"

text \<open>
  \<open>try: body except Exception: sys.exit(1)\<close>: every exception of the body other than
  \<open>SystemExit\<close> ends the process with status 1.
\<close>

definition try_or_exit :: "'a py \<Rightarrow> 'a py" where
  "try_or_exit m w =
     (case m w of
        (Inl (SystemExit n), w') \<Rightarrow> (Inl (SystemExit n), w')
      | (Inl e, w') \<Rightarrow> (Inl (SystemExit 1), w')
      | (Inr a, w') \<Rightarrow> (Inr a, w'))"

text \<open>
  The host name and the stack path as \<open>main\<close> of the provisioning script derives them
  from the prefix.
\<close>

definition create_hostname :: "string \<Rightarrow> string" where
  "create_hostname pfx = pfx @ ''.aopstest.com''"

definition create_stack_path :: "path \<Rightarrow> string \<Rightarrow> path" where
  "create_stack_path terramate_cloud_path pfx =
     path_join (path_join terramate_cloud_path DEFAULT_STACK_ACCOUNT_PATH)
       (create_hostname pfx)"

definition create_main :: "system \<Rightarrow> invocation \<Rightarrow> unit py" where
  "create_main X a =
     (let pfx = arg_prefix a;
          full_hostname = create_hostname pfx;
          ci = (arg_ci a \<or> truthy (environ a ''CI''));
          ansible_cfg_branch = get_env a ''ANSIBLE_CFG_BRANCH'' DEFAULT_ANSIBLE_CFG_BRANCH;
          vault_password_file = get_env a ''VAULT_PASSWORD_FILE'' (DEFAULT_VAULT_PASSWORD_FILE a);
          terramate_cloud_repo = get_env a ''TERRAMATE_CLOUD_REPO'' DEFAULT_TERRAMATE_CLOUD_REPO;
          ansible_config_repo = get_env a ''ANSIBLE_CONFIG_REPO'' DEFAULT_ANSIBLE_CONFIG_REPO;
          bootstrap_ssh_key = get_env a ''BOOTSTRAP_SSH_KEY'' (DEFAULT_BOOTSTRAP_SSH_KEY a);
          ansiblecontrol_ssh_key =
            get_env a ''ANSIBLECONTROL_SSH_KEY'' (DEFAULT_ANSIBLECONTROL_SSH_KEY a);
          terraform_template_file = DEFAULT_TERRAFORM_TEMPLATE_FILE a;
          email = get_env a ''EMAIL'' DEFAULT_EMAIL;
          terramate_cloud_path =
            py_or (environ a ''TERRAMATE_CLOUD_PATH'')
              (''/tmp/terramate-cloud-'' @ pfx @ ''-'' @ unique_id a);
          config_root =
            py_or (environ a ''ANSIBLE_CONFIG_ROOT'')
              (''/tmp/ansible-cfg-'' @ pfx @ ''-'' @ unique_id a);
          stack_path = create_stack_path terramate_cloud_path pfx
      in try_or_exit
           (bind (py_when (\<lambda>w. \<not> path_exists terramate_cloud_path w)
                    (clone_terramate_repo X terramate_cloud_repo terramate_cloud_path)) (\<lambda>_.
            bind (py_when (\<lambda>w. \<not> path_exists config_root w)
                    (clone_ansible_repo X ansible_config_repo config_root
                       ansible_cfg_branch)) (\<lambda>_.
            bind (create_and_apply_terraform_stack X stack_path terramate_cloud_path pfx
                    full_hostname terraform_template_file ci) (\<lambda>_.
            bind (add_to_ansible_inventory X config_root full_hostname email) (\<lambda>_.
            bind (run_ansible X config_root full_hostname bootstrap_ssh_key
                    ansiblecontrol_ssh_key vault_password_file) (\<lambda>_.
            bind (import_db X full_hostname) (\<lambda>_.
            play_tones X [''880'', ''990'', ''1100'']))))))))"

section \<open>The decommissioning pipeline\<close>

text \<open>\<open>shutil.rmtree(p)\<close>: the directory and everything below it is gone.\<close>

definition below :: "path \<Rightarrow> path \<Rightarrow> bool" where
  "below p q = (q = p \<or> prefix (p @ ''/'') q)"

definition rmtree :: "path \<Rightarrow> unit py" where
  "rmtree p w =
     (Inr (), w\<lparr>dirs := {d. d \<in> dirs w \<and> \<not> below p d},
               files := (\<lambda>q. if below p q then None else files w q),
               docs := (\<lambda>q. if below p q then None else docs w q)\<rparr>)"

definition destroy_terraform_stack :: "system \<Rightarrow> path \<Rightarrow> path \<Rightarrow> string \<Rightarrow> bool py" where
  "destroy_terraform_stack X stack_path terramate_cloud_path full_hostname w =
     (if \<not> path_exists stack_path w then ret False w
      else (bind (run X (Cmd [''terraform'', ''init''] (Some stack_path)) True) (\<lambda>_.
            bind (run X (Cmd [''terraform'', ''destroy'', ''-auto-approve'']
                          (Some stack_path)) True) (\<lambda>_.
            bind (rmtree stack_path) (\<lambda>_.
            bind (run X (Cmd [''git'', ''add'', ''.''] (Some terramate_cloud_path)) True) (\<lambda>_.
            bind (run X (Cmd [''git'', ''commit'', ''-m'',
                              ''Destroy test instance '' @ full_hostname @ '' (remove stack)'']
                          (Some terramate_cloud_path)) False) (\<lambda>_.
            bind (run X (Cmd [''git'', ''push'', ''origin'', ''main'']
                          (Some terramate_cloud_path)) True) (\<lambda>_. ret True))))))) w)"

definition remove_from_ansible_inventory :: "system \<Rightarrow> path \<Rightarrow> string \<Rightarrow> path py" where
  "remove_from_ansible_inventory X config_root full_hostname =
     bind (remove_host X (InventoryManager config_root) full_hostname)
       (\<lambda>_. ret config_root)"

text \<open>
  The host name and the stack path as \<open>main\<close> of the decommissioning script derives
  them from the prefix.
\<close>

definition destroy_hostname :: "string \<Rightarrow> string" where
  "destroy_hostname pfx = pfx @ ''.aopstest.com''"

definition destroy_stack_path :: "path \<Rightarrow> string \<Rightarrow> path" where
  "destroy_stack_path terramate_cloud_path pfx =
     path_join (path_join terramate_cloud_path DEFAULT_STACK_ACCOUNT_PATH)
       (destroy_hostname pfx)"

text \<open>The prefix check of the decommissioning script.\<close>

definition valid_destroy_prefix :: "string \<Rightarrow> bool" where
  "valid_destroy_prefix pfx =
     isalnum (remove_char CHR ''-'' (remove_char CHR ''_'' pfx))"

definition destroy_main :: "system \<Rightarrow> invocation \<Rightarrow> unit py" where
  "destroy_main X a =
     (let pfx = arg_prefix a;
          full_hostname = destroy_hostname pfx;
          ci = (arg_ci a \<or> truthy (environ a ''CI''))
      in if \<not> valid_destroy_prefix pfx
         then bind (stderr_print
                 ''ERROR: PREFIX must be alphanumeric (letters, numbers, underscores, and dashes only).'')
                (\<lambda>_. raise (SystemExit 1))
         else
          (let ansible_cfg_branch = get_env a ''ANSIBLE_CFG_BRANCH'' DEFAULT_ANSIBLE_CFG_BRANCH;
               terramate_cloud_repo =
                 get_env a ''TERRAMATE_CLOUD_REPO'' DEFAULT_TERRAMATE_CLOUD_REPO;
               ansible_config_repo = get_env a ''ANSIBLE_CONFIG_REPO'' DEFAULT_ANSIBLE_CONFIG_REPO
           in bind (get_env_required a ''CLOUDFLARE_API_TOKEN'') (\<lambda>token.
              if \<not> truthy token
              then bind (stderr_print
                      ''ERROR: CLOUDFLARE_API_TOKEN is not set in the environment.'')
                     (\<lambda>_. raise (SystemExit 1))
              else
               (let terramate_cloud_path =
                      py_or (environ a ''TERRAMATE_CLOUD_PATH'')
                        (''/tmp/terramate-cloud-'' @ pfx @ ''-'' @ unique_id a);
                    config_root =
                      py_or (environ a ''ANSIBLE_CONFIG_ROOT'')
                        (''/tmp/ansible-cfg-'' @ pfx @ ''-'' @ unique_id a);
                    stack_path = destroy_stack_path terramate_cloud_path pfx
                in try_or_exit
                     (bind (py_when (\<lambda>w. \<not> path_exists terramate_cloud_path w)
                              (clone_terramate_repo X terramate_cloud_repo
                                 terramate_cloud_path)) (\<lambda>_.
                      bind (py_when (\<lambda>w. \<not> path_exists config_root w)
                              (clone_ansible_repo X ansible_config_repo config_root
                                 ansible_cfg_branch)) (\<lambda>_.
                      bind (destroy_terraform_stack X stack_path terramate_cloud_path
                              full_hostname) (\<lambda>_.
                      bind (remove_from_ansible_inventory X config_root
                              full_hostname) (\<lambda>_.
                      play_tones X [''1100'', ''990'', ''880''])))))))))"

text \<open>The exit status of the process for the way \<open>main\<close> ended.\<close>

fun exit_status :: "exn + unit \<Rightarrow> int" where
  "exit_status (Inr _) = 0"
| "exit_status (Inl (SystemExit n)) = n"
| "exit_status (Inl e) = 1"

section \<open>Notions for the statements and the proofs\<close>

text \<open>
  The two file updates of \<open>ensure_host\<close> as functions of the file contents, and its
  closing git sequence on its own. \<open>inventory_step\<close> gives the characters stored in the
  host-list file afterwards: the file is left alone when the text read has the host,
  and is rewritten from the text read otherwise.
\<close>

definition inventory_step :: "string \<Rightarrow> string \<Rightarrow> string" where
  "inventory_step full_hostname stored =
     (if \<not> str_in (full_hostname @ '':'') (universal_newlines stored)
      then concat (insert_host full_hostname False (splitlines (universal_newlines stored)))
      else stored)"

definition and_then :: "exn + 'a \<Rightarrow> ('a \<Rightarrow> exn + 'b) \<Rightarrow> exn + 'b" where
  "and_then r k = (case r of Inl e \<Rightarrow> Inl e | Inr a \<Rightarrow> k a)"

definition emails_step :: "string \<Rightarrow> string \<Rightarrow> yaml \<Rightarrow> exn + yaml option" where
  "emails_step full_hostname email emails =
     and_then (py_in ''host_emails'' emails) (\<lambda>has_map.
     and_then (if \<not> has_map then py_setitem emails ''host_emails'' (YMap [])
               else Inr emails) (\<lambda>emails.
     and_then (py_getitem emails ''host_emails'') (\<lambda>host_emails.
     and_then (py_in full_hostname host_emails) (\<lambda>has_host.
       if \<not> has_host
       then and_then (py_setitem host_emails full_hostname (YStr email)) (\<lambda>host_emails.
            and_then (py_setitem emails ''host_emails'' host_emails) (\<lambda>emails.
              Inr (Some emails)))
       else Inr None))))"

definition commit_and_push :: "system \<Rightarrow> inventory_manager \<Rightarrow> string \<Rightarrow> unit py" where
  "commit_and_push X self full_hostname =
     bind (run X (Cmd [''git'', ''add'', inventory_file self, emails_file self]
                   (Some (ansible_config_root self))) True) (\<lambda>_.
     bind (run X (Cmd [''git'', ''commit'', ''-m'',
                       ''Add '' @ full_hostname @ '' to inventory and emails.yml'']
                   (Some (ansible_config_root self))) False) (\<lambda>_.
     bind (run X (Cmd [''git'', ''push'', ''origin'', ''simple'']
                   (Some (ansible_config_root self))) True) (\<lambda>_. ret ())))"

definition after_files :: "inventory_manager \<Rightarrow> string \<Rightarrow> string \<Rightarrow> world \<Rightarrow> world" where
  "after_files self H stored w =
     w\<lparr>files := (files w)(inventory_file self \<mapsto> inventory_step H stored)\<rparr>"

text \<open>
  A contact file in the shape the scripts expect: a mapping whose \<open>host_emails\<close> entry,
  when there is one, is a mapping.
\<close>

definition well_formed_emails :: "yaml \<Rightarrow> bool" where
  "well_formed_emails d =
     (case d of
        YMap kvs \<Rightarrow>
          (case map_of kvs ''host_emails'' of
             None \<Rightarrow> True | Some (YMap hs) \<Rightarrow> True | Some _ \<Rightarrow> False)
      | _ \<Rightarrow> False)"

text \<open>
  Worlds and an environment to run the definitions in: nothing exists and nothing has
  happened; a working copy at \<open>root\<close> with the two inventory files; an environment that
  fails no command.
\<close>

definition bare_world :: world where
  "bare_world =
     \<lparr>trace = [], dirs = {}, files = Map.empty, docs = Map.empty, index = [], head = [],
      commits = [], installed = {}, errors = []\<rparr>"

definition inventory_world :: "path \<Rightarrow> string \<Rightarrow> yaml \<Rightarrow> world" where
  "inventory_world root content d =
     bare_world\<lparr>files := [inventory_file (InventoryManager root) \<mapsto> content],
                docs := [emails_file (InventoryManager root) \<mapsto> d]\<rparr>"

definition no_fault :: "cmd \<Rightarrow> int" where
  "no_fault c = 0"

text \<open>
  A working copy at \<open>root\<close> whose two inventory files hold the given documents.
\<close>

definition destroy_world :: "path \<Rightarrow> yaml \<Rightarrow> yaml \<Rightarrow> world" where
  "destroy_world root inventory emails =
     bare_world\<lparr>docs := [inventory_file (InventoryManager root) \<mapsto> inventory,
                          emails_file (InventoryManager root) \<mapsto> emails]\<rparr>"

text \<open>
  An invocation in CI mode with an empty environment, and an external world in which
  every command fails.
\<close>

definition example_invocation :: "string \<Rightarrow> invocation" where
  "example_invocation pfx =
     \<lparr>arg_prefix = pfx, arg_ci = True, arg_debug = False, environ = Map.empty,
      home = ''/home/ops'', script_dir = ''/opt/scripts'', unique_id = ''0123abcd''\<rparr>"

definition failing :: system where
  "failing c w = (\<lparr>returncode = 1, stdout = []\<rparr>, w)"

text \<open>
  The program a command starts, and the events that are failures: a command whose
  caller asked for failure checking and that ended with a status other than zero.
\<close>

definition program :: "cmd \<Rightarrow> string" where
  "program c = (case argv c of [] \<Rightarrow> [] | x # _ \<Rightarrow> x)"

definition failed :: "event \<Rightarrow> bool" where
  "failed e = (checked e \<and> status e \<noteq> 0)"

text \<open>
  The invariant of the pipeline's computations. The events a computation adds to the
  trace start programs of \<open>S\<close> only; none but the last of them is a failure; when the
  computation returns, none is; and it never raises \<open>SystemExit\<close> itself.
\<close>

definition orderly :: "string set \<Rightarrow> 'a py \<Rightarrow> bool" where
  "orderly S m =
     (\<forall>w. \<exists>es. trace (snd (m w)) = trace w @ es \<and>
        (\<forall>e \<in> set es. program (command e) \<in> S) \<and>
        (\<forall>e \<in> set (butlast es). \<not> failed e) \<and>
        (case fst (m w) of
           Inr _ \<Rightarrow> \<forall>e \<in> set es. \<not> failed e
         | Inl x \<Rightarrow> \<forall>n. x \<noteq> SystemExit n))"

text \<open>
  An external world in which \<open>terraform apply\<close> fails and every other command succeeds,
  and a world in which the stack directory and the Terraform template exist.
\<close>

definition failing_apply :: system where
  "failing_apply c w =
     (\<lparr>returncode = (if take 2 (argv c) = [''terraform'', ''apply''] then 1 else 0),
       stdout = []\<rparr>, w)"

definition provision_world :: world where
  "provision_world =
     bare_world
       \<lparr>dirs := {''/tmp/terramate-cloud-qa7-0123abcd/stacks/accounts/aops_dev.487718497406/qa7.aopstest.com''},
        files := [''/opt/scripts/test_instance.tf.template'' \<mapsto>
                    ''name = TERRAFORM_STACK_PREFIX_PLACEHOLDER'']\<rparr>"

text \<open>
  The body of \<open>main\<close> of the provisioning script in two parts: the stages up to and
  including the Terraform stack, and the stages after it.
\<close>

definition provisioning_head :: "system \<Rightarrow> invocation \<Rightarrow> path py" where
  "provisioning_head X a =
     (let pfx = arg_prefix a;
          terramate_cloud_path =
            py_or (environ a ''TERRAMATE_CLOUD_PATH'')
              (''/tmp/terramate-cloud-'' @ pfx @ ''-'' @ unique_id a);
          config_root =
            py_or (environ a ''ANSIBLE_CONFIG_ROOT'')
              (''/tmp/ansible-cfg-'' @ pfx @ ''-'' @ unique_id a)
      in bind (py_when (\<lambda>w. \<not> path_exists terramate_cloud_path w)
                 (clone_terramate_repo X
                    (get_env a ''TERRAMATE_CLOUD_REPO'' DEFAULT_TERRAMATE_CLOUD_REPO)
                    terramate_cloud_path)) (\<lambda>_.
         bind (py_when (\<lambda>w. \<not> path_exists config_root w)
                 (clone_ansible_repo X
                    (get_env a ''ANSIBLE_CONFIG_REPO'' DEFAULT_ANSIBLE_CONFIG_REPO) config_root
                    (get_env a ''ANSIBLE_CFG_BRANCH'' DEFAULT_ANSIBLE_CFG_BRANCH))) (\<lambda>_.
         create_and_apply_terraform_stack X (create_stack_path terramate_cloud_path pfx)
           terramate_cloud_path pfx (create_hostname pfx) (DEFAULT_TERRAFORM_TEMPLATE_FILE a)
           (arg_ci a \<or> truthy (environ a ''CI'')))))"

definition provisioning_tail :: "system \<Rightarrow> invocation \<Rightarrow> unit py" where
  "provisioning_tail X a =
     (let pfx = arg_prefix a;
          config_root =
            py_or (environ a ''ANSIBLE_CONFIG_ROOT'')
              (''/tmp/ansible-cfg-'' @ pfx @ ''-'' @ unique_id a)
      in bind (add_to_ansible_inventory X config_root (create_hostname pfx)
                 (get_env a ''EMAIL'' DEFAULT_EMAIL)) (\<lambda>_.
         bind (run_ansible X config_root (create_hostname pfx)
                 (get_env a ''BOOTSTRAP_SSH_KEY'' (DEFAULT_BOOTSTRAP_SSH_KEY a))
                 (get_env a ''ANSIBLECONTROL_SSH_KEY'' (DEFAULT_ANSIBLECONTROL_SSH_KEY a))
                 (get_env a ''VAULT_PASSWORD_FILE'' (DEFAULT_VAULT_PASSWORD_FILE a))) (\<lambda>_.
         bind (import_db X (create_hostname pfx)) (\<lambda>_.
         play_tones X [''880'', ''990'', ''1100'']))))"

text \<open>
  The programs the two parts start.
\<close>

definition early_programs :: "string set" where
  "early_programs = {''git'', ''terramate'', ''terraform''}"

definition late_programs :: "string set" where
  "late_programs = {''git'', ''ansible-playbook'', ''ssh-import-db.sh'', ''play''}"




text \<open>
  The working copy of the infrastructure repository, as both scripts choose it: the
  path given in the environment, or a fresh one under \<open>/tmp\<close> named after the prefix.
\<close>

definition terramate_cloud_path_of :: "invocation \<Rightarrow> path" where
  "terramate_cloud_path_of a =
     py_or (environ a ''TERRAMATE_CLOUD_PATH'')
       (''/tmp/terramate-cloud-'' @ arg_prefix a @ ''-'' @ unique_id a)"

text \<open>The commands a computation starts in a world, in the order it starts them.\<close>

definition new_commands :: "'a py \<Rightarrow> world \<Rightarrow> cmd list" where
  "new_commands m w = map command (drop (length (trace w)) (trace (snd (m w))))"

text \<open>
  A command is aimed at the host \<open>h\<close> and the stack directory \<open>sp\<close>: Terraform runs in
  \<open>sp\<close>; \<open>terramate create\<close> creates the stack of \<open>h\<close> under the account path; the
  playbooks are limited to \<open>h\<close>; the database import goes to \<open>h\<close>; yq tests and deletes
  the key \<open>h\<close>; and a commit message names \<open>h\<close>.
\<close>

definition targets :: "string \<Rightarrow> path \<Rightarrow> cmd \<Rightarrow> bool" where
  "targets h sp c =
     ((program c = ''terraform'' \<longrightarrow> cwd c = Some sp) \<and>
      (program c = ''terramate'' \<longrightarrow>
         argv c = [''terramate'', ''create'', DEFAULT_STACK_ACCOUNT_PATH @ ''/'' @ h]) \<and>
      (program c = ''ansible-playbook'' \<longrightarrow> take 2 (drop 4 (argv c)) = [''--limit'', h]) \<and>
      (program c = ''ssh-import-db.sh'' \<longrightarrow> argv c = [''ssh-import-db.sh'', h]) \<and>
      (program c = ''yq'' \<longrightarrow>
         argv c ! 2 \<in> {has_expr ''.all.hosts'' h, del_expr ''.all.hosts'' h,
                       has_expr ''.host_emails'' h, del_expr ''.host_emails'' h}) \<and>
      (take 2 (argv c) = [''git'', ''commit''] \<longrightarrow> str_in h (argv c ! 3)))"

text \<open>Every command a computation starts, in whatever world, satisfies \<open>Q\<close>.\<close>

definition emits :: "(cmd \<Rightarrow> bool) \<Rightarrow> 'a py \<Rightarrow> bool" where
  "emits Q m = (\<forall>w. \<exists>es. trace (snd (m w)) = trace w @ es \<and> (\<forall>e \<in> set es. Q (command e)))"

text \<open>
  Worlds in which the working copies are already there: one ready for provisioning
  \<open>qa7\<close> (the stack directory, the Terraform template, an empty host list and an empty
  contact file), one in which \<open>qa7\<close> stands (its stack directory, and its entries in
  both inventory files); and an invocation with the Cloudflare token set.
\<close>

definition working_world :: world where
  "working_world =
     bare_world
       \<lparr>dirs := {''/tmp/terramate-cloud-qa7-0123abcd'', ''/tmp/ansible-cfg-qa7-0123abcd'',
                 ''/tmp/terramate-cloud-qa7-0123abcd/stacks/accounts/aops_dev.487718497406/qa7.aopstest.com''},
        files := [''/opt/scripts/test_instance.tf.template'' \<mapsto>
                    ''name = TERRAFORM_STACK_PREFIX_PLACEHOLDER'',
                  ''/tmp/ansible-cfg-qa7-0123abcd/inventory.yml'' \<mapsto> ''hosts:'' @ [NL]],
        docs := [''/tmp/ansible-cfg-qa7-0123abcd/group_vars/all/emails.yml'' \<mapsto> YMap []]\<rparr>"

definition standing_world :: world where
  "standing_world =
     bare_world
       \<lparr>dirs := {''/tmp/terramate-cloud-qa7-0123abcd'', ''/tmp/ansible-cfg-qa7-0123abcd'',
                 ''/tmp/terramate-cloud-qa7-0123abcd/stacks/accounts/aops_dev.487718497406/qa7.aopstest.com''},
        docs := [''/tmp/ansible-cfg-qa7-0123abcd/inventory.yml'' \<mapsto>
                   YMap [(''all'', YMap [(''hosts'', YMap [(''qa7.aopstest.com'', YNull)])])],
                 ''/tmp/ansible-cfg-qa7-0123abcd/group_vars/all/emails.yml'' \<mapsto>
                   YMap [(''host_emails'', YMap [(''qa7.aopstest.com'', YStr ''a@b.com'')])]]\<rparr>"

definition token_invocation :: "string \<Rightarrow> invocation" where
  "token_invocation pfx =
     (example_invocation pfx)\<lparr>environ := [''CLOUDFLARE_API_TOKEN'' \<mapsto> ''token'']\<rparr>"

section \<open>Properties of the text primitives and of dicts\<close>



lemma str_in_iff: "str_in sub s \<longleftrightarrow> sublist sub s"
  by (induction s) (auto simp: sublist_Cons_right)





lemma universal_newlines_id: "CR \<notin> set s \<Longrightarrow> universal_newlines s = s"
  by (induction s rule: universal_newlines.induct) auto



lemma map_of_dict_set: "map_of (dict_set kvs k v) k' = (if k' = k then Some v else map_of kvs k')"
  by (induction kvs k v rule: dict_set.induct) auto


lemma keys_dict_set: "fst ` set (dict_set kvs k v) = insert k (fst ` set kvs)"
  by (induction kvs k v rule: dict_set.induct) auto

lemma in_keys_iff: "k \<in> fst ` set kvs \<longleftrightarrow> map_of kvs k \<noteq> None"
  by (simp add: map_of_eq_None_iff)


lemma add_email_for_host_eq:
  "add_email_for_host self H E w =
     (case docs w (emails_file self) of
        None \<Rightarrow> (Inl (FileNotFoundError (emails_file self)), w)
      | Some d \<Rightarrow>
         (case emails_step H E d of
            Inl e \<Rightarrow> (Inl e, w)
          | Inr None \<Rightarrow> (Inr False, w)
          | Inr (Some d') \<Rightarrow> (Inr True, w\<lparr>docs := (docs w)(emails_file self \<mapsto> d')\<rparr>)))"
  by (auto simp: add_email_for_host_def emails_step_def and_then_def bind_def lift_def
        ret_def safe_load_def safe_dump_def split: option.splits sum.splits)

lemma add_host_to_inventory_eq:
  "files w (inventory_file self) = Some stored \<Longrightarrow>
   add_host_to_inventory self H w =
     (Inr (), w\<lparr>files := (files w)(inventory_file self \<mapsto>
        concat (insert_host H False (splitlines (universal_newlines stored))))\<rparr>)"
  by (simp add: add_host_to_inventory_def bind_def read_text_def write_text_def)

lemma ensure_host_eq:
  "ensure_host X self H E w =
     (case files w (inventory_file self) of
        None \<Rightarrow> (Inl (FileNotFoundError (inventory_file self)), w)
      | Some text \<Rightarrow>
         (case docs w (emails_file self) of
            None \<Rightarrow> (Inl (FileNotFoundError (emails_file self)), after_files self H text w)
          | Some d \<Rightarrow>
             (case emails_step H E d of
                Inl e \<Rightarrow> (Inl e, after_files self H text w)
              | Inr u \<Rightarrow>
                 commit_and_push X self H
                   ((after_files self H text w)
                      \<lparr>docs := (docs w)(emails_file self \<mapsto> (case u of None \<Rightarrow> d | Some d' \<Rightarrow> d'))\<rparr>))))"
proof (cases "files w (inventory_file self)")
  case None
  then show ?thesis by (simp add: ensure_host_def bind_def read_text_def)
next
  case (Some t)
  have triv: "w\<lparr>files := (files w)(inventory_file self \<mapsto> t)\<rparr> = w"
    using Some by (simp add: fun_upd_idem)
  have first: "bind (read_text (inventory_file self)) k w = k (universal_newlines t) w"
    for k :: "string \<Rightarrow> unit py"
    using Some by (simp add: bind_def read_text_def)
  have second: "(if \<not> str_in (H @ '':'') (universal_newlines t)
                 then add_host_to_inventory self H else ret ()) w
      = (Inr (), after_files self H t w)"
    using Some triv
    by (simp add: add_host_to_inventory_eq ret_def after_files_def inventory_step_def)
  have docs_same: "docs (after_files self H t w) = docs w"
    by (simp add: after_files_def)
  have triv2: "docs w (emails_file self) = Some d \<Longrightarrow>
      (after_files self H t w)\<lparr>docs := (docs w)(emails_file self \<mapsto> d)\<rparr> = after_files self H t w" for d
    by (simp add: after_files_def fun_upd_idem)
  show ?thesis
    unfolding ensure_host_def first
    apply (subst bind_def)
    apply (simp add: second Some)
    apply (subst bind_def)
    apply (simp add: add_email_for_host_eq docs_same commit_and_push_def triv2
             split: option.splits sum.splits)
    done
qed




lemma commit_and_push_git:
  assumes "commit_and_push (git f) self H w = (r, w')"
  defines "A \<equiv> Cmd [''git'', ''add'', inventory_file self, emails_file self]
                   (Some (ansible_config_root self))"
      and "C \<equiv> Cmd [''git'', ''commit'', ''-m'',
                       ''Add '' @ H @ '' to inventory and emails.yml'']
                   (Some (ansible_config_root self))"
  shows "files w' = files w \<and> docs w' = docs w \<and>
         (if f A \<noteq> 0 then index w' = index w \<and> head w' = head w \<and> commits w' = commits w
          else index w' = stage [inventory_file self, emails_file self] w \<and>
               (if f C = 0 \<and> index w' \<noteq> head w
                then head w' = index w' \<and> commits w' = commits w @ [C]
                else head w' = head w \<and> commits w' = commits w))"
  using assms(1) unfolding A_def C_def
  by (auto simp: commit_and_push_def bind_def run_def git_def ret_def Let_def
           split: if_splits prod.splits)


section \<open>Adding a host\<close>







lemma well_formed_emails_step:
  "well_formed_emails d \<Longrightarrow> \<exists>u. emails_step H E d = Inr u"
proof (cases d)
  case (YMap kvs)
  assume wf: "well_formed_emails d"
  show ?thesis
  proof (cases "map_of kvs ''host_emails''")
    case None
    then show ?thesis using YMap
      by (simp add: emails_step_def and_then_def in_keys_iff map_of_dict_set)
  next
    case (Some he)
    then obtain hs where "he = YMap hs"
      using wf YMap by (cases he) (simp_all add: well_formed_emails_def)
    then show ?thesis using YMap Some
      by (simp add: emails_step_def and_then_def in_keys_iff)
  qed
qed (simp_all add: well_formed_emails_def)

lemma commit_and_push_git_trace:
  assumes "fault (Cmd [''git'', ''add'', inventory_file self, emails_file self]
                   (Some (ansible_config_root self))) = 0"
  shows "map command (trace (snd (commit_and_push (git fault) self H w))) =
         map command (trace w) @
           [Cmd [''git'', ''add'', inventory_file self, emails_file self]
              (Some (ansible_config_root self)),
            Cmd [''git'', ''commit'', ''-m'', ''Add '' @ H @ '' to inventory and emails.yml'']
              (Some (ansible_config_root self)),
            Cmd [''git'', ''push'', ''origin'', ''simple''] (Some (ansible_config_root self))]"
  using assms
  by (auto simp: commit_and_push_def bind_def run_def git_def ret_def Let_def
           split: if_splits prod.splits)

lemma ensure_host_inventory:
  assumes "files w (inventory_file self) = Some content"
  shows "files (snd (ensure_host (git fault) self H E w)) (inventory_file self) =
         Some (inventory_step H content)"
proof -
  have "files (snd (commit_and_push (git fault) self H w')) = files w'" for w'
    using commit_and_push_git [of fault self H w' "fst (commit_and_push (git fault) self H w')"
            "snd (commit_and_push (git fault) self H w')"] by simp
  then show ?thesis using assms
    by (simp add: ensure_host_eq after_files_def split: option.splits sum.splits)
qed



text \<open>
  Claim C10. When the text read from the host-list file contains \<open>H:\<close> anywhere, for example
  as the tail of a longer host name, \<open>ensure_host\<close> leaves the file as it is: the
  presence test is a substring test, not a key lookup. The git sequence still runs:
  with a well-formed contact file and a \<open>git add\<close> that succeeds, the commands started
  are \<open>git add\<close>, \<open>git commit\<close> and \<open>git push\<close>, in this order.
\<close>

theorem ensure_host_substring_match:
  assumes "files w (inventory_file self) = Some content"
      and "str_in (H @ '':'') (universal_newlines content)"
  shows "files (snd (ensure_host (git fault) self H E w)) (inventory_file self) = Some content \<and>
         (\<forall>d. docs w (emails_file self) = Some d \<and> well_formed_emails d \<and>
               fault (Cmd [''git'', ''add'', inventory_file self, emails_file self]
                       (Some (ansible_config_root self))) = 0 \<longrightarrow>
            map command (trace (snd (ensure_host (git fault) self H E w))) =
            map command (trace w) @
              [Cmd [''git'', ''add'', inventory_file self, emails_file self]
                 (Some (ansible_config_root self)),
               Cmd [''git'', ''commit'', ''-m'', ''Add '' @ H @ '' to inventory and emails.yml'']
                 (Some (ansible_config_root self)),
               Cmd [''git'', ''push'', ''origin'', ''simple'']
                 (Some (ansible_config_root self))])"
proof -
  have "inventory_step H content = content"
    using assms(2) by (simp add: inventory_step_def)
  then have one: "files (snd (ensure_host (git fault) self H E w)) (inventory_file self) = Some content"
    using assms(1) by (simp add: ensure_host_inventory)
  have two: "map command (trace (snd (ensure_host (git fault) self H E w))) =
            map command (trace w) @
              [Cmd [''git'', ''add'', inventory_file self, emails_file self]
                 (Some (ansible_config_root self)),
               Cmd [''git'', ''commit'', ''-m'', ''Add '' @ H @ '' to inventory and emails.yml'']
                 (Some (ansible_config_root self)),
               Cmd [''git'', ''push'', ''origin'', ''simple'']
                 (Some (ansible_config_root self))]"
    if d: "docs w (emails_file self) = Some d" and wf: "well_formed_emails d"
      and ok: "fault (Cmd [''git'', ''add'', inventory_file self, emails_file self]
                       (Some (ansible_config_root self))) = 0" for d
  proof -
    obtain u where "emails_step H E d = Inr u"
      using well_formed_emails_step [OF wf] by blast
    then show ?thesis using assms(1) d
      by (simp add: ensure_host_eq commit_and_push_git_trace [of fault self, OF ok] after_files_def)
  qed
  show ?thesis using one two by blast
qed




lemma inventory_world_files:
  "files (inventory_world root content d) (inventory_file (InventoryManager root)) = Some content"
  by (simp add: inventory_world_def bare_world_def)

lemma inventory_world_docs:
  "docs (inventory_world root content d) (emails_file (InventoryManager root)) = Some d"
  by (simp add: inventory_world_def bare_world_def)

lemma inventory_world_trace: "trace (inventory_world root content d) = []"
  by (simp add: inventory_world_def bare_world_def)

lemma repo_manager:
  "inventory_file (InventoryManager ''/repo'') = ''/repo/inventory.yml''"
  "emails_file (InventoryManager ''/repo'') = ''/repo/group_vars/all/emails.yml''"
  "ansible_config_root (InventoryManager ''/repo'') = ''/repo''"
  by (simp_all add: InventoryManager_def path_join_def suffix_to_prefix)


theorem ensure_host_substring_match_witness:
  "files (inventory_world ''/repo''
            (''all:'' @ [NL] @ ''  hosts:'' @ [NL] @ ''    mytest.aopstest.com:'' @ [NL]) (YMap []))
     (inventory_file (InventoryManager ''/repo'')) =
     Some (''all:'' @ [NL] @ ''  hosts:'' @ [NL] @ ''    mytest.aopstest.com:'' @ [NL]) \<and>
   str_in (''test.aopstest.com'' @ '':'')
     (universal_newlines
        (''all:'' @ [NL] @ ''  hosts:'' @ [NL] @ ''    mytest.aopstest.com:'' @ [NL])) \<and>
   well_formed_emails (YMap []) \<and>
   files (snd (ensure_host (git no_fault) (InventoryManager ''/repo'') ''test.aopstest.com''
                 ''a@b.com''
                 (inventory_world ''/repo''
                    (''all:'' @ [NL] @ ''  hosts:'' @ [NL] @ ''    mytest.aopstest.com:'' @ [NL])
                    (YMap []))))
     (inventory_file (InventoryManager ''/repo'')) =
     Some (''all:'' @ [NL] @ ''  hosts:'' @ [NL] @ ''    mytest.aopstest.com:'' @ [NL]) \<and>
   map command
     (trace (snd (ensure_host (git no_fault) (InventoryManager ''/repo'') ''test.aopstest.com''
                 ''a@b.com''
                 (inventory_world ''/repo''
                    (''all:'' @ [NL] @ ''  hosts:'' @ [NL] @ ''    mytest.aopstest.com:'' @ [NL])
                    (YMap []))))) =
     [Cmd [''git'', ''add'', ''/repo/inventory.yml'', ''/repo/group_vars/all/emails.yml'']
        (Some ''/repo''),
      Cmd [''git'', ''commit'', ''-m'', ''Add test.aopstest.com to inventory and emails.yml'']
        (Some ''/repo''),
      Cmd [''git'', ''push'', ''origin'', ''simple''] (Some ''/repo'')]"
proof -
  let ?content = "''all:'' @ [NL] @ ''  hosts:'' @ [NL] @ ''    mytest.aopstest.com:'' @ [NL]"
  let ?w = "inventory_world ''/repo'' ?content (YMap [])"
  let ?self = "InventoryManager ''/repo''"
  have h1: "files ?w (inventory_file ?self) = Some ?content"
    by (rule inventory_world_files)
  have "universal_newlines ?content = ?content"
    by (rule universal_newlines_id) simp
  then have h2: "str_in (''test.aopstest.com'' @ '':'') (universal_newlines ?content)"
    by simp
  have h3: "docs ?w (emails_file ?self) = Some (YMap [])"
    by (rule inventory_world_docs)
  have h4: "well_formed_emails (YMap [])"
    by (simp add: well_formed_emails_def)
  have h5: "no_fault (Cmd [''git'', ''add'', inventory_file ?self, emails_file ?self]
                       (Some (ansible_config_root ?self))) = 0"
    by (simp add: no_fault_def)
  note inst = ensure_host_substring_match [OF h1 h2, of no_fault "''a@b.com''"]
  from inst have c1: "files (snd (ensure_host (git no_fault) ?self ''test.aopstest.com''
                 ''a@b.com'' ?w)) (inventory_file ?self) = Some ?content"
    by blast
  from inst h3 h4 h5 have "map command
     (trace (snd (ensure_host (git no_fault) ?self ''test.aopstest.com'' ''a@b.com'' ?w))) =
     map command (trace ?w) @
     [Cmd [''git'', ''add'', inventory_file ?self, emails_file ?self]
        (Some (ansible_config_root ?self)),
      Cmd [''git'', ''commit'', ''-m'', ''Add '' @ ''test.aopstest.com'' @ '' to inventory and emails.yml'']
        (Some (ansible_config_root ?self)),
      Cmd [''git'', ''push'', ''origin'', ''simple''] (Some (ansible_config_root ?self))]"
    by blast
  then have c2: "map command
     (trace (snd (ensure_host (git no_fault) ?self ''test.aopstest.com'' ''a@b.com'' ?w))) =
     [Cmd [''git'', ''add'', ''/repo/inventory.yml'', ''/repo/group_vars/all/emails.yml'']
        (Some ''/repo''),
      Cmd [''git'', ''commit'', ''-m'', ''Add test.aopstest.com to inventory and emails.yml'']
        (Some ''/repo''),
      Cmd [''git'', ''push'', ''origin'', ''simple''] (Some ''/repo'')]"
    unfolding repo_manager inventory_world_trace by simp
  show ?thesis using h1 h2 h4 c1 c2 by blast
qed


section \<open>Removing a host\<close>

lemma between_mid: "between pre suf (pre @ k @ suf) = Some k"
  by (simp add: between_def suffix_def)

lemma yq_has_hosts_expr: "yq_has (has_expr ''.all.hosts'' h) = Some ([''all'', ''hosts''], h)"
proof -
  have "has_expr ''.all.hosts'' h = (''.all.hosts | has('' @ [DQ]) @ h @ ([DQ] @ '')'')"
    by (simp add: has_expr_def)
  then show ?thesis unfolding yq_has_def by (simp only: between_mid option.case)
qed

lemma yq_has_emails_expr: "yq_has (has_expr ''.host_emails'' h) = Some ([''host_emails''], h)"
proof -
  have e: "has_expr ''.host_emails'' h = (''.host_emails | has('' @ [DQ]) @ h @ ([DQ] @ '')'')"
    by (simp add: has_expr_def)
  have n: "between (''.all.hosts | has('' @ [DQ]) ([DQ] @ '')'') (has_expr ''.host_emails'' h) = None"
    by (simp add: between_def has_expr_def)
  have s: "between (''.host_emails | has('' @ [DQ]) ([DQ] @ '')'') (has_expr ''.host_emails'' h) = Some h"
    unfolding e by (rule between_mid)
  show ?thesis unfolding yq_has_def by (simp only: n s option.case)
qed

lemma yq_del_hosts_expr: "yq_del (del_expr ''.all.hosts'' h) = Some ([''all'', ''hosts''], h)"
proof -
  have "del_expr ''.all.hosts'' h = (''del(.all.hosts.'' @ [DQ]) @ h @ ([DQ] @ '')'')"
    by (simp add: del_expr_def)
  then show ?thesis unfolding yq_del_def by (simp only: between_mid option.case)
qed

lemma yq_del_emails_expr: "yq_del (del_expr ''.host_emails'' h) = Some ([''host_emails''], h)"
proof -
  have e: "del_expr ''.host_emails'' h = (''del(.host_emails.'' @ [DQ]) @ h @ ([DQ] @ '')'')"
    by (simp add: del_expr_def)
  have n: "between (''del(.all.hosts.'' @ [DQ]) ([DQ] @ '')'') (del_expr ''.host_emails'' h) = None"
    by (simp add: between_def del_expr_def)
  have s: "between (''del(.host_emails.'' @ [DQ]) ([DQ] @ '')'') (del_expr ''.host_emails'' h) = Some h"
    unfolding e by (rule between_mid)
  show ?thesis unfolding yq_del_def by (simp only: n s option.case)
qed

lemma remove_host_from_inventory_yq:
  "remove_host_from_inventory (yq X) self h w =
     (if \<not> path_exists (inventory_file self) w then (Inr False, w)
      else if host_listed h (inventory_file self) w
      then (Inr True,
            w\<lparr>docs := (docs w)(inventory_file self \<mapsto>
                   yaml_del [''all'', ''hosts''] h (the (docs w (inventory_file self)))),
              trace := trace w @
                [Event (Cmd [''yq'', ''eval'', has_expr ''.all.hosts'' h, inventory_file self]
                          None) False 0,
                 Event (Cmd [''yq'', ''eval'', del_expr ''.all.hosts'' h, ''-i'',
                             inventory_file self] None) True 0]\<rparr>)
      else (Inr False,
            w\<lparr>trace := trace w @
                [Event (Cmd [''yq'', ''eval'', has_expr ''.all.hosts'' h, inventory_file self]
                          None) False
                   (if docs w (inventory_file self) = None then 1 else 0)]\<rparr>))"
  by (auto simp: remove_host_from_inventory_def ret_def bind_def subprocess_run_def run_def
        yq_def yq_has_hosts_expr yq_del_hosts_expr host_listed_def Let_def
        split: option.splits)

lemma remove_email_for_host_yq:
  "remove_email_for_host (yq X) self h w =
     (if \<not> path_exists (emails_file self) w then (Inr False, w)
      else if email_listed h (emails_file self) w
      then (Inr True,
            w\<lparr>docs := (docs w)(emails_file self \<mapsto>
                   yaml_del [''host_emails''] h (the (docs w (emails_file self)))),
              trace := trace w @
                [Event (Cmd [''yq'', ''eval'', has_expr ''.host_emails'' h, emails_file self]
                          None) False 0,
                 Event (Cmd [''yq'', ''eval'', del_expr ''.host_emails'' h, ''-i'',
                             emails_file self] None) True 0]\<rparr>)
      else (Inr False,
            w\<lparr>trace := trace w @
                [Event (Cmd [''yq'', ''eval'', has_expr ''.host_emails'' h, emails_file self]
                          None) False
                   (if docs w (emails_file self) = None then 1 else 0)]\<rparr>))"
  by (auto simp: remove_email_for_host_def ret_def bind_def subprocess_run_def run_def
        yq_def yq_has_emails_expr yq_del_emails_expr email_listed_def Let_def
        split: option.splits)

lemma listed_trace_update [simp]:
  "host_listed h p (w\<lparr>trace := t\<rparr>) = host_listed h p w"
  "email_listed h p (w\<lparr>trace := t\<rparr>) = email_listed h p w"
  "path_exists p (w\<lparr>trace := t\<rparr>) = path_exists p w"
  by (simp_all add: host_listed_def email_listed_def path_exists_def)

text \<open>
  Claim C3. When the host has an entry neither in the host list nor in the contact
  mapping, \<open>remove_host\<close> starts no git command (no add, no commit, no push), changes no
  file and returns normally. Read the other way: a commit and a push are started only
  when at least one of the two entries was there and was removed.
\<close>

theorem remove_host_absent_no_commit:
  assumes "\<not> host_listed H (inventory_file self) w"
      and "\<not> email_listed H (emails_file self) w"
  shows "fst (remove_host (yq X) self H w) = Inr None \<and>
         git_commands (snd (remove_host (yq X) self H w)) = git_commands w \<and>
         docs (snd (remove_host (yq X) self H w)) = docs w \<and>
         files (snd (remove_host (yq X) self H w)) = files w"
  using assms
  by (simp add: remove_host_def bind_def remove_host_from_inventory_yq
        remove_email_for_host_yq ret_def git_commands_def)

lemma manager_paths_distinct:
  "inventory_file (InventoryManager root) \<noteq> emails_file (InventoryManager root)"
  by (simp add: InventoryManager_def path_join_def)

lemma destroy_world_docs:
  "docs (destroy_world root i e) (inventory_file (InventoryManager root)) = Some i"
  "docs (destroy_world root i e) (emails_file (InventoryManager root)) = Some e"
  using manager_paths_distinct [of root] by (simp_all add: destroy_world_def bare_world_def)

lemma destroy_world_trace: "trace (destroy_world root i e) = []"
  by (simp add: destroy_world_def bare_world_def)

theorem remove_host_absent_no_commit_witness:
  "\<not> host_listed ''t1.aopstest.com'' (inventory_file (InventoryManager ''/repo''))
       (destroy_world ''/repo''
          (YMap [(''all'', YMap [(''hosts'', YMap [(''other.aopstest.com'', YNull)])])])
          (YMap [(''host_emails'', YMap [(''other.aopstest.com'', YStr ''a@b.com'')])])) \<and>
   \<not> email_listed ''t1.aopstest.com'' (emails_file (InventoryManager ''/repo''))
       (destroy_world ''/repo''
          (YMap [(''all'', YMap [(''hosts'', YMap [(''other.aopstest.com'', YNull)])])])
          (YMap [(''host_emails'', YMap [(''other.aopstest.com'', YStr ''a@b.com'')])])) \<and>
   fst (remove_host (yq (git no_fault)) (InventoryManager ''/repo'') ''t1.aopstest.com''
       (destroy_world ''/repo''
          (YMap [(''all'', YMap [(''hosts'', YMap [(''other.aopstest.com'', YNull)])])])
          (YMap [(''host_emails'', YMap [(''other.aopstest.com'', YStr ''a@b.com'')])]))) =
     Inr None \<and>
   git_commands (snd (remove_host (yq (git no_fault)) (InventoryManager ''/repo'')
       ''t1.aopstest.com''
       (destroy_world ''/repo''
          (YMap [(''all'', YMap [(''hosts'', YMap [(''other.aopstest.com'', YNull)])])])
          (YMap [(''host_emails'', YMap [(''other.aopstest.com'', YStr ''a@b.com'')])])))) = []"
proof -
  let ?w = "destroy_world ''/repo''
          (YMap [(''all'', YMap [(''hosts'', YMap [(''other.aopstest.com'', YNull)])])])
          (YMap [(''host_emails'', YMap [(''other.aopstest.com'', YStr ''a@b.com'')])])"
  have h1: "\<not> host_listed ''t1.aopstest.com'' (inventory_file (InventoryManager ''/repo'')) ?w"
    by (simp add: host_listed_def destroy_world_docs has_key_def yaml_get_def)
  have h2: "\<not> email_listed ''t1.aopstest.com'' (emails_file (InventoryManager ''/repo'')) ?w"
    by (simp add: email_listed_def destroy_world_docs has_key_def yaml_get_def)
  have "git_commands ?w = []"
    by (simp add: git_commands_def destroy_world_trace)
  then show ?thesis
    using h1 h2 remove_host_absent_no_commit [OF h1 h2, of "git no_fault"] by simp
qed















section \<open>Host names, stack paths and the checks before the first command\<close>

lemma isalnum_char_not_slash: "isalnum_char c \<Longrightarrow> c \<noteq> CHR ''/''"
  by (auto simp: isalnum_char_def)

lemma valid_destroy_prefix_chars:
  assumes "valid_destroy_prefix pfx"
  shows "pfx \<noteq> [] \<and> CHR ''/'' \<notin> set pfx"
proof -
  let ?f = "remove_char CHR ''-'' (remove_char CHR ''_'' pfx)"
  have ne: "?f \<noteq> []" and all: "\<forall>c \<in> set ?f. isalnum_char c"
    using assms by (simp_all add: valid_destroy_prefix_def isalnum_def list_all_iff)
  have "pfx \<noteq> []" using ne by (auto simp: remove_char_def)
  moreover have "CHR ''/'' \<notin> set pfx"
  proof
    assume "CHR ''/'' \<in> set pfx"
    then have "CHR ''/'' \<in> set ?f" by (simp add: remove_char_def)
    then show False using all isalnum_char_not_slash by blast
  qed
  ultimately show ?thesis by simp
qed

lemma isalnum_chars:
  assumes "isalnum pfx"
  shows "pfx \<noteq> [] \<and> CHR ''/'' \<notin> set pfx"
  using assms isalnum_char_not_slash by (auto simp: isalnum_def list_all_iff)

lemma path_join_account: 
  "path_join root DEFAULT_STACK_ACCOUNT_PATH \<noteq> [] \<and>
   \<not> suffix ''/'' (path_join root DEFAULT_STACK_ACCOUNT_PATH)"
  by (auto simp: path_join_def DEFAULT_STACK_ACCOUNT_PATH_def suffix_def)

lemma try_or_exit_trace: "trace (snd (try_or_exit m w)) = trace (snd (m w))"
  by (auto simp: try_or_exit_def split: prod.splits sum.splits exn.splits)

lemma emits_silent: "(\<And>w. trace (snd (m w)) = trace w) \<Longrightarrow> emits Q m"
  unfolding emits_def by simp

lemma emits_ret: "emits Q (ret a)"
  by (rule emits_silent) (simp add: ret_def)

lemma emits_raise: "emits Q (raise e)"
  by (rule emits_silent) (simp add: raise_def)

lemma emits_lift: "emits Q (lift r)"
  by (rule emits_silent) (simp add: lift_def)

lemma emits_read_text: "emits Q (read_text p)"
  by (rule emits_silent) (simp add: read_text_def split: option.splits)

lemma emits_write_text: "emits Q (write_text p s)"
  by (rule emits_silent) (simp add: write_text_def)

lemma emits_safe_load: "emits Q (safe_load p)"
  by (rule emits_silent) (simp add: safe_load_def split: option.splits)

lemma emits_safe_dump: "emits Q (safe_dump d p)"
  by (rule emits_silent) (simp add: safe_dump_def)

lemma emits_stderr_print: "emits Q (stderr_print s)"
  by (rule emits_silent) (simp add: stderr_print_def)

lemma emits_rmtree: "emits Q (rmtree p)"
  by (rule emits_silent) (simp add: rmtree_def)

lemma emits_run: "Q c \<Longrightarrow> emits Q (run X c chk)"
  unfolding emits_def
  by (auto simp: run_def Let_def split: prod.splits)

lemma emits_subprocess_run: "Q c \<Longrightarrow> emits Q (subprocess_run X c)"
  unfolding emits_def
  by (auto simp: subprocess_run_def Let_def split: prod.splits)

lemma emits_bind:
  assumes "emits Q m" and "\<And>a. emits Q (k a)"
  shows "emits Q (bind m k)"
  unfolding emits_def
proof
  fix w
  obtain r1 w1 where m: "m w = (r1, w1)" by (cases "m w")
  from assms(1) obtain es1 where t1: "trace w1 = trace w @ es1"
    and q1: "\<forall>e \<in> set es1. Q (command e)"
    unfolding emits_def using m by (metis snd_conv)
  show "\<exists>es. trace (snd (bind m k w)) = trace w @ es \<and> (\<forall>e \<in> set es. Q (command e))"
  proof (cases r1)
    case (Inl x)
    then have "bind m k w = (Inl x, w1)" using m by (simp add: bind_def)
    then show ?thesis using t1 q1 by (intro exI [of _ es1]) simp
  next
    case (Inr v)
    from assms(2) [of v] obtain es2 where t2: "trace (snd (k v w1)) = trace w1 @ es2"
      and q2: "\<forall>e \<in> set es2. Q (command e)"
      unfolding emits_def by blast
    have "bind m k w = k v w1" using m Inr by (simp add: bind_def)
    then show ?thesis using t1 t2 q1 q2 by (intro exI [of _ "es1 @ es2"]) auto
  qed
qed

lemma emits_if: "emits Q m \<Longrightarrow> emits Q n \<Longrightarrow> emits Q (if b then m else n)"
  by simp

lemma emits_cond: "emits Q m \<Longrightarrow> emits Q n \<Longrightarrow> emits Q (\<lambda>w. if c w then m w else n w)"
  unfolding emits_def by simp

lemma emits_when: "emits Q m \<Longrightarrow> emits Q (py_when c m)"
proof -
  assume "emits Q m"
  then have "emits Q (bind m (\<lambda>_. ret ()))"
    by (intro emits_bind emits_ret)
  then have "emits Q (\<lambda>w. if c w then bind m (\<lambda>_. ret ()) w else ret () w)"
    by (intro emits_cond emits_ret)
  then show ?thesis by (simp add: py_when_def [abs_def])
qed

lemma emits_try_or_exit: "emits Q m \<Longrightarrow> emits Q (try_or_exit m)"
  unfolding emits_def by (simp add: try_or_exit_trace)

lemmas emits_intros =
  emits_bind emits_ret emits_run emits_subprocess_run emits_if emits_cond emits_when
  emits_read_text emits_write_text emits_safe_load emits_safe_dump emits_lift emits_raise
  emits_stderr_print emits_rmtree emits_try_or_exit

lemma targets_git:
  "take 1 (argv c) = [''git''] \<Longrightarrow> take 2 (argv c) \<noteq> [''git'', ''commit''] \<Longrightarrow> targets h sp c"
  by (cases "argv c") (auto simp: targets_def program_def)

lemma targets_commit:
  "argv c = [''git'', ''commit'', ''-m'', pre @ h @ post] \<Longrightarrow> targets h sp c"
  by (simp add: targets_def program_def str_in_iff)

lemma targets_terraform:
  "take 1 (argv c) = [''terraform''] \<Longrightarrow> cwd c = Some sp \<Longrightarrow> targets h sp c"
  by (cases "argv c") (auto simp: targets_def program_def)

lemma targets_play: "take 1 (argv c) = [''play''] \<Longrightarrow> targets h sp c"
  by (cases "argv c") (auto simp: targets_def program_def)

lemma emits_clone_terramate_repo: "emits (targets h sp) (clone_terramate_repo X u p)"
  unfolding clone_terramate_repo_def
  by (intro emits_intros targets_git) simp_all

lemma emits_clone_ansible_repo: "emits (targets h sp) (clone_ansible_repo X u p b)"
  unfolding clone_ansible_repo_def
  by (intro emits_intros targets_git) simp_all

lemma emits_add_host_to_inventory: "emits Q (add_host_to_inventory self h)"
  unfolding add_host_to_inventory_def
  by (intro emits_intros)

lemma emits_add_email_for_host: "emits Q (add_email_for_host self h e)"
  unfolding add_email_for_host_def
  by (intro emits_intros)


lemma targets_commit_end:
  "argv c = [''git'', ''commit'', ''-m'', pre @ h] \<Longrightarrow> targets h sp c"
  using targets_commit [of c pre h "[]" sp] by simp

lemma targets_terramate:
  "argv c = [''terramate'', ''create'', DEFAULT_STACK_ACCOUNT_PATH @ ''/'' @ h] \<Longrightarrow>
   targets h sp c"
  by (simp add: targets_def program_def)

lemma targets_ansible:
  "argv c = [''ansible-playbook'', y, ''--private-key'', k, ''--limit'', h,
             ''--vault-password-file'', v, ''--ssh-common-args'', opts] \<Longrightarrow> targets h sp c"
  by (simp add: targets_def program_def)

lemma targets_import: "argv c = [''ssh-import-db.sh'', h] \<Longrightarrow> targets h sp c"
  by (simp add: targets_def program_def)

lemma targets_yq:
  "argv c = ''yq'' # ''eval'' # x # rest \<Longrightarrow>
   x \<in> {has_expr ''.all.hosts'' h, del_expr ''.all.hosts'' h,
         has_expr ''.host_emails'' h, del_expr ''.host_emails'' h} \<Longrightarrow> targets h sp c"
  by (simp add: targets_def program_def)

lemma emits_ensure_host: "emits (targets h sp) (ensure_host X self h e)"
  unfolding ensure_host_def
  apply (intro emits_intros emits_add_host_to_inventory emits_add_email_for_host)
    apply (rule targets_git; simp)
   apply (rule targets_commit [where pre = "''Add ''" and post = "'' to inventory and emails.yml''"];
          simp)
  apply (rule targets_git; simp)
  done

lemma emits_create_and_apply:
  "emits (targets h sp) (create_and_apply_terraform_stack X sp tp pfx h tf ci)"
  unfolding create_and_apply_terraform_stack_def
  apply (intro emits_intros)
       apply (rule targets_terramate; simp add: DEFAULT_STACK_ACCOUNT_PATH_def)
      apply (rule targets_git; simp)
     apply (rule targets_commit_end [where pre = "''Create or update test instance ''"]; simp)
    apply (rule targets_git; simp)
   apply (rule targets_terraform; simp)
  apply (rule targets_terraform; simp)
  done

lemma emits_add_to_ansible_inventory:
  "emits (targets h sp) (add_to_ansible_inventory X root h e)"
  unfolding add_to_ansible_inventory_def
  by (intro emits_intros emits_ensure_host)

lemma emits_run_ansible: "emits (targets h sp) (run_ansible X root h k1 k2 v)"
  unfolding run_ansible_def
  by (intro emits_intros; rule targets_ansible; simp)

lemma emits_import_db: "emits (targets h sp) (import_db X h)"
  unfolding import_db_def
  by (intro emits_intros; rule targets_import; simp)

lemma emits_tones:
  "emits (targets h sp) m \<Longrightarrow>
   emits (targets h sp)
     (fold (\<lambda>freq m.
          bind m (\<lambda>_. bind (run X (Cmd [''play'', ''-q'', ''-n'', ''synth'', ''0.1'', ''sin'', freq]
                                  None) False) (\<lambda>_. ret ())))
        freqs m)"
proof (induction freqs arbitrary: m)
  case Nil
  then show ?case by simp
next
  case (Cons f fs)
  have "emits (targets h sp)
          (bind m (\<lambda>_. bind (run X (Cmd [''play'', ''-q'', ''-n'', ''synth'', ''0.1'', ''sin'', f]
                                  None) False) (\<lambda>_. ret ())))"
    using Cons.prems by (intro emits_intros targets_play) simp_all
  then show ?case using Cons.IH by simp
qed

lemma emits_play_tones: "emits (targets h sp) (play_tones X freqs)"
  unfolding play_tones_def
  by (intro emits_when emits_tones emits_ret)

lemma emits_destroy_terraform_stack:
  "emits (targets h sp) (destroy_terraform_stack X sp tp h)"
  unfolding destroy_terraform_stack_def [abs_def]
  apply (intro emits_intros)
      apply (rule targets_terraform; simp)
     apply (rule targets_terraform; simp)
    apply (rule targets_git; simp)
   apply (rule targets_commit [where pre = "''Destroy test instance ''" and post = "'' (remove stack)''"];
          simp)
  apply (rule targets_git; simp)
  done

lemma emits_remove_host_from_inventory:
  "emits (targets h sp) (remove_host_from_inventory X self h)"
  unfolding remove_host_from_inventory_def [abs_def]
  by (intro emits_intros; (rule targets_yq, simp, simp))

lemma emits_remove_email_for_host:
  "emits (targets h sp) (remove_email_for_host X self h)"
  unfolding remove_email_for_host_def [abs_def]
  by (intro emits_intros; (rule targets_yq, simp, simp))

lemma emits_remove_host: "emits (targets h sp) (remove_host X self h)"
  unfolding remove_host_def
  apply (intro emits_intros emits_remove_host_from_inventory emits_remove_email_for_host)
    apply (rule targets_git; simp)
   apply (rule targets_commit [where pre = "''Remove ''"
            and post = "'' from host_emails in emails.yml and inventory.yml''"]; simp)
  apply (rule targets_git; simp)
  done

lemma emits_remove_from_ansible_inventory:
  "emits (targets h sp) (remove_from_ansible_inventory X root h)"
  unfolding remove_from_ansible_inventory_def
  by (intro emits_intros emits_remove_host)

lemma emits_get_env_required: "emits Q (get_env_required a var)"
  unfolding get_env_required_def Let_def
  by (intro emits_intros)

lemma emits_create_main:
  "emits (targets (create_hostname (arg_prefix a))
            (create_stack_path (terramate_cloud_path_of a) (arg_prefix a)))
     (create_main X a)"
  unfolding create_main_def Let_def terramate_cloud_path_of_def
  by (intro emits_try_or_exit emits_bind emits_when emits_clone_terramate_repo
        emits_clone_ansible_repo emits_create_and_apply emits_add_to_ansible_inventory
        emits_run_ansible emits_import_db emits_play_tones)

lemma emits_destroy_main:
  "emits (targets (destroy_hostname (arg_prefix a))
            (destroy_stack_path (terramate_cloud_path_of a) (arg_prefix a)))
     (destroy_main X a)"
  unfolding destroy_main_def Let_def terramate_cloud_path_of_def
  by (intro emits_try_or_exit emits_bind emits_when emits_if emits_stderr_print emits_raise
        emits_get_env_required emits_clone_terramate_repo
        emits_clone_ansible_repo emits_destroy_terraform_stack
        emits_remove_from_ansible_inventory emits_play_tones)

lemma emits_new_commands: "emits Q m \<Longrightarrow> list_all Q (new_commands m w)"
  unfolding emits_def new_commands_def
proof -
  assume "\<forall>w. \<exists>es. trace (snd (m w)) = trace w @ es \<and> (\<forall>e\<in>set es. Q (command e))"
  then obtain es where "trace (snd (m w)) = trace w @ es" and "\<forall>e\<in>set es. Q (command e)"
    by blast
  then show "list_all Q (map command (drop (length (trace w)) (trace (snd (m w)))))"
    by (simp add: list_all_iff)
qed


lemma stack_path_valid:
  assumes "isalnum pfx \<or> valid_destroy_prefix pfx"
  shows "path_join (path_join root DEFAULT_STACK_ACCOUNT_PATH) (pfx @ ''.aopstest.com'') =
         path_join root DEFAULT_STACK_ACCOUNT_PATH @ ''/'' @ pfx @ ''.aopstest.com''"
proof -
  have "pfx \<noteq> [] \<and> CHR ''/'' \<notin> set pfx"
    using assms valid_destroy_prefix_chars isalnum_chars by blast
  then have "\<not> prefix ''/'' (pfx @ ''.aopstest.com'')"
    by (cases pfx) auto
  then show ?thesis
    using path_join_account [of root]
    by (simp add: path_join_def [of "path_join root DEFAULT_STACK_ACCOUNT_PATH"])
qed

text \<open>
  Claim C4. For every valid prefix (alphanumeric for the provisioning script;
  alphanumeric once underscores and dashes are taken out for the decommissioning script)
  both scripts derive the host name as the prefix followed by \<open>.aopstest.com\<close>, and the
  stack path as the base account path joined with that host name, which for a valid
  prefix is the base path, a slash and the host name. Both are functions of the prefix
  (and of the root of the working copy) alone. And these are the host and the stack
  that \<open>main\<close> of either script acts on: in every external world, every command it
  starts is aimed at that host name and that stack path.
\<close>

theorem hostname_and_stack_path:
  assumes "isalnum pfx \<or> valid_destroy_prefix pfx" and "arg_prefix a = pfx"
  shows "create_hostname pfx = pfx @ ''.aopstest.com'' \<and>
         destroy_hostname pfx = pfx @ ''.aopstest.com'' \<and>
         create_stack_path root pfx =
           path_join (path_join root DEFAULT_STACK_ACCOUNT_PATH) (create_hostname pfx) \<and>
         destroy_stack_path root pfx =
           path_join (path_join root DEFAULT_STACK_ACCOUNT_PATH) (destroy_hostname pfx) \<and>
         create_stack_path root pfx =
           path_join root DEFAULT_STACK_ACCOUNT_PATH @ ''/'' @ pfx @ ''.aopstest.com'' \<and>
         destroy_stack_path root pfx =
           path_join root DEFAULT_STACK_ACCOUNT_PATH @ ''/'' @ pfx @ ''.aopstest.com'' \<and>
         list_all (targets (pfx @ ''.aopstest.com'')
                     (path_join (terramate_cloud_path_of a) DEFAULT_STACK_ACCOUNT_PATH @ ''/'' @
                        pfx @ ''.aopstest.com''))
           (new_commands (create_main X a) w) \<and>
         list_all (targets (pfx @ ''.aopstest.com'')
                     (path_join (terramate_cloud_path_of a) DEFAULT_STACK_ACCOUNT_PATH @ ''/'' @
                        pfx @ ''.aopstest.com''))
           (new_commands (destroy_main X a) w)"
proof -
  have sp: "path_join (path_join r DEFAULT_STACK_ACCOUNT_PATH) (pfx @ ''.aopstest.com'') =
            path_join r DEFAULT_STACK_ACCOUNT_PATH @ ''/'' @ pfx @ ''.aopstest.com''" for r
    using assms(1) by (rule stack_path_valid)
  have names: "create_hostname pfx = pfx @ ''.aopstest.com''"
    "destroy_hostname pfx = pfx @ ''.aopstest.com''"
    by (simp_all add: create_hostname_def destroy_hostname_def)
  have paths: "create_stack_path r pfx =
                 path_join r DEFAULT_STACK_ACCOUNT_PATH @ ''/'' @ pfx @ ''.aopstest.com''"
    "destroy_stack_path r pfx =
                 path_join r DEFAULT_STACK_ACCOUNT_PATH @ ''/'' @ pfx @ ''.aopstest.com''" for r
    by (simp_all add: create_stack_path_def destroy_stack_path_def names sp)
  have c: "list_all (targets (create_hostname (arg_prefix a))
                      (create_stack_path (terramate_cloud_path_of a) (arg_prefix a)))
             (new_commands (create_main X a) w)"
    by (rule emits_new_commands [OF emits_create_main])
  have d: "list_all (targets (destroy_hostname (arg_prefix a))
                      (destroy_stack_path (terramate_cloud_path_of a) (arg_prefix a)))
             (new_commands (destroy_main X a) w)"
    by (rule emits_new_commands [OF emits_destroy_main])
  show ?thesis
    using c d unfolding assms(2) paths names
    by (simp add: sp)
qed

theorem hostname_and_stack_path_witness:
  "isalnum ''qa7'' \<and> valid_destroy_prefix ''qa-7_b'' \<and>
   create_hostname ''qa7'' = ''qa7.aopstest.com'' \<and>
   create_stack_path ''/tmp/tm'' ''qa7'' =
     ''/tmp/tm/stacks/accounts/aops_dev.487718497406/qa7.aopstest.com'' \<and>
   destroy_hostname ''qa-7_b'' = ''qa-7_b.aopstest.com'' \<and>
   destroy_stack_path ''/tmp/tm'' ''qa-7_b'' =
     ''/tmp/tm/stacks/accounts/aops_dev.487718497406/qa-7_b.aopstest.com'' \<and>
   new_commands (create_main (yq (git no_fault)) (example_invocation ''qa7'')) working_world =
     [Cmd [''git'', ''add'', ''.''] (Some ''/tmp/terramate-cloud-qa7-0123abcd''),
      Cmd [''git'', ''commit'', ''-m'', ''Create or update test instance qa7.aopstest.com'']
        (Some ''/tmp/terramate-cloud-qa7-0123abcd''),
      Cmd [''git'', ''push'', ''origin'', ''main''] (Some ''/tmp/terramate-cloud-qa7-0123abcd''),
      Cmd [''terraform'', ''init'']
        (Some ''/tmp/terramate-cloud-qa7-0123abcd/stacks/accounts/aops_dev.487718497406/qa7.aopstest.com''),
      Cmd [''terraform'', ''apply'', ''-auto-approve'']
        (Some ''/tmp/terramate-cloud-qa7-0123abcd/stacks/accounts/aops_dev.487718497406/qa7.aopstest.com''),
      Cmd [''git'', ''add'', ''/tmp/ansible-cfg-qa7-0123abcd/inventory.yml'',
           ''/tmp/ansible-cfg-qa7-0123abcd/group_vars/all/emails.yml'']
        (Some ''/tmp/ansible-cfg-qa7-0123abcd''),
      Cmd [''git'', ''commit'', ''-m'', ''Add qa7.aopstest.com to inventory and emails.yml'']
        (Some ''/tmp/ansible-cfg-qa7-0123abcd''),
      Cmd [''git'', ''push'', ''origin'', ''simple''] (Some ''/tmp/ansible-cfg-qa7-0123abcd''),
      Cmd [''ansible-playbook'', ''initial_setup.yml'',
           ''--private-key'', ''/home/ops/.ssh/bootstrap_key'',
           ''--limit'', ''qa7.aopstest.com'',
           ''--vault-password-file'', ''/home/ops/.aops_ansible_vault_pw'',
           ''--ssh-common-args'',
           ''-o UserKnownHostsFile=/dev/null -o StrictHostKeyChecking=no'']
        (Some ''/tmp/ansible-cfg-qa7-0123abcd''),
      Cmd [''ansible-playbook'', ''web_setup.yml'',
           ''--private-key'', ''/home/ops/.ssh/ansible_control_key'',
           ''--limit'', ''qa7.aopstest.com'',
           ''--vault-password-file'', ''/home/ops/.aops_ansible_vault_pw'',
           ''--ssh-common-args'',
           ''-o UserKnownHostsFile=/dev/null -o StrictHostKeyChecking=no'']
        (Some ''/tmp/ansible-cfg-qa7-0123abcd''),
      Cmd [''ssh-import-db.sh'', ''qa7.aopstest.com''] None] \<and>
   list_all (targets ''qa7.aopstest.com''
       ''/tmp/terramate-cloud-qa7-0123abcd/stacks/accounts/aops_dev.487718497406/qa7.aopstest.com'')
     (new_commands (create_main (yq (git no_fault)) (example_invocation ''qa7'')) working_world) \<and>
   new_commands (destroy_main (yq (git no_fault)) (token_invocation ''qa7'')) standing_world =
     [Cmd [''terraform'', ''init'']
        (Some ''/tmp/terramate-cloud-qa7-0123abcd/stacks/accounts/aops_dev.487718497406/qa7.aopstest.com''),
      Cmd [''terraform'', ''destroy'', ''-auto-approve'']
        (Some ''/tmp/terramate-cloud-qa7-0123abcd/stacks/accounts/aops_dev.487718497406/qa7.aopstest.com''),
      Cmd [''git'', ''add'', ''.''] (Some ''/tmp/terramate-cloud-qa7-0123abcd''),
      Cmd [''git'', ''commit'', ''-m'', ''Destroy test instance qa7.aopstest.com (remove stack)'']
        (Some ''/tmp/terramate-cloud-qa7-0123abcd''),
      Cmd [''git'', ''push'', ''origin'', ''main''] (Some ''/tmp/terramate-cloud-qa7-0123abcd''),
      Cmd [''yq'', ''eval'', ''.all.hosts | has('' @ [DQ] @ ''qa7.aopstest.com'' @ [DQ] @ '')'',
           ''/tmp/ansible-cfg-qa7-0123abcd/inventory.yml''] None,
      Cmd [''yq'', ''eval'', ''del(.all.hosts.'' @ [DQ] @ ''qa7.aopstest.com'' @ [DQ] @ '')'',
           ''-i'', ''/tmp/ansible-cfg-qa7-0123abcd/inventory.yml''] None,
      Cmd [''yq'', ''eval'', ''.host_emails | has('' @ [DQ] @ ''qa7.aopstest.com'' @ [DQ] @ '')'',
           ''/tmp/ansible-cfg-qa7-0123abcd/group_vars/all/emails.yml''] None,
      Cmd [''yq'', ''eval'', ''del(.host_emails.'' @ [DQ] @ ''qa7.aopstest.com'' @ [DQ] @ '')'',
           ''-i'', ''/tmp/ansible-cfg-qa7-0123abcd/group_vars/all/emails.yml''] None,
      Cmd [''git'', ''add'', ''/tmp/ansible-cfg-qa7-0123abcd/inventory.yml'',
           ''/tmp/ansible-cfg-qa7-0123abcd/group_vars/all/emails.yml'']
        (Some ''/tmp/ansible-cfg-qa7-0123abcd''),
      Cmd [''git'', ''commit'', ''-m'',
           ''Remove qa7.aopstest.com from host_emails in emails.yml and inventory.yml'']
        (Some ''/tmp/ansible-cfg-qa7-0123abcd''),
      Cmd [''git'', ''push'', ''origin'', ''simple''] (Some ''/tmp/ansible-cfg-qa7-0123abcd'')] \<and>
   list_all (targets ''qa7.aopstest.com''
       ''/tmp/terramate-cloud-qa7-0123abcd/stacks/accounts/aops_dev.487718497406/qa7.aopstest.com'')
     (new_commands (destroy_main (yq (git no_fault)) (token_invocation ''qa7'')) standing_world)"
proof -
  let ?X = "yq (git no_fault)"
  have h1: "isalnum ''qa7''" by code_simp
  have h2: "valid_destroy_prefix ''qa-7_b''" by code_simp
  have j: "path_join ''/tmp/tm'' DEFAULT_STACK_ACCOUNT_PATH =
           ''/tmp/tm/stacks/accounts/aops_dev.487718497406''" by code_simp
  have j1: "path_join (terramate_cloud_path_of (example_invocation ''qa7''))
              DEFAULT_STACK_ACCOUNT_PATH =
            ''/tmp/terramate-cloud-qa7-0123abcd/stacks/accounts/aops_dev.487718497406''"
    by code_simp
  have j2: "path_join (terramate_cloud_path_of (token_invocation ''qa7''))
              DEFAULT_STACK_ACCOUNT_PATH =
            ''/tmp/terramate-cloud-qa7-0123abcd/stacks/accounts/aops_dev.487718497406''"
    by code_simp
  have p1: "arg_prefix (example_invocation ''qa7'') = ''qa7''"
    by (simp add: example_invocation_def)
  have p2: "arg_prefix (token_invocation ''qa7'') = ''qa7''"
    by (simp add: token_invocation_def example_invocation_def)
  have p3: "arg_prefix (example_invocation ''qa-7_b'') = ''qa-7_b''"
    by (simp add: example_invocation_def)
  from h1 have a: "isalnum ''qa7'' \<or> valid_destroy_prefix ''qa7''" by simp
  from h2 have b: "isalnum ''qa-7_b'' \<or> valid_destroy_prefix ''qa-7_b''" by simp
  note create = hostname_and_stack_path [OF a p1, where root = "''/tmp/tm''" and X = ?X
                  and w = working_world]
  note destroy = hostname_and_stack_path [OF a p2, where root = "''/tmp/tm''" and X = ?X
                  and w = standing_world]
  note other = hostname_and_stack_path [OF b p3, where root = "''/tmp/tm''" and X = ?X
                  and w = standing_world]
  have c1: "create_hostname ''qa7'' = ''qa7'' @ ''.aopstest.com''"
    using create by (elim conjE)
  have c2: "create_stack_path ''/tmp/tm'' ''qa7'' =
       path_join ''/tmp/tm'' DEFAULT_STACK_ACCOUNT_PATH @ ''/'' @ ''qa7'' @ ''.aopstest.com''"
    using create by (elim conjE)
  have c3: "list_all (targets (''qa7'' @ ''.aopstest.com'')
              (path_join (terramate_cloud_path_of (example_invocation ''qa7''))
                 DEFAULT_STACK_ACCOUNT_PATH @ ''/'' @ ''qa7'' @ ''.aopstest.com''))
            (new_commands (create_main ?X (example_invocation ''qa7'')) working_world)"
    using create by (elim conjE)
  have d1: "destroy_hostname ''qa-7_b'' = ''qa-7_b'' @ ''.aopstest.com''"
    using other by (elim conjE)
  have d2: "destroy_stack_path ''/tmp/tm'' ''qa-7_b'' =
       path_join ''/tmp/tm'' DEFAULT_STACK_ACCOUNT_PATH @ ''/'' @ ''qa-7_b'' @ ''.aopstest.com''"
    using other by (elim conjE)
  have d3: "list_all (targets (''qa7'' @ ''.aopstest.com'')
              (path_join (terramate_cloud_path_of (token_invocation ''qa7''))
                 DEFAULT_STACK_ACCOUNT_PATH @ ''/'' @ ''qa7'' @ ''.aopstest.com''))
            (new_commands (destroy_main ?X (token_invocation ''qa7'')) standing_world)"
    using destroy by (elim conjE)
  have r1: "new_commands (create_main ?X (example_invocation ''qa7'')) working_world =
     [Cmd [''git'', ''add'', ''.''] (Some ''/tmp/terramate-cloud-qa7-0123abcd''),
      Cmd [''git'', ''commit'', ''-m'', ''Create or update test instance qa7.aopstest.com'']
        (Some ''/tmp/terramate-cloud-qa7-0123abcd''),
      Cmd [''git'', ''push'', ''origin'', ''main''] (Some ''/tmp/terramate-cloud-qa7-0123abcd''),
      Cmd [''terraform'', ''init'']
        (Some ''/tmp/terramate-cloud-qa7-0123abcd/stacks/accounts/aops_dev.487718497406/qa7.aopstest.com''),
      Cmd [''terraform'', ''apply'', ''-auto-approve'']
        (Some ''/tmp/terramate-cloud-qa7-0123abcd/stacks/accounts/aops_dev.487718497406/qa7.aopstest.com''),
      Cmd [''git'', ''add'', ''/tmp/ansible-cfg-qa7-0123abcd/inventory.yml'',
           ''/tmp/ansible-cfg-qa7-0123abcd/group_vars/all/emails.yml'']
        (Some ''/tmp/ansible-cfg-qa7-0123abcd''),
      Cmd [''git'', ''commit'', ''-m'', ''Add qa7.aopstest.com to inventory and emails.yml'']
        (Some ''/tmp/ansible-cfg-qa7-0123abcd''),
      Cmd [''git'', ''push'', ''origin'', ''simple''] (Some ''/tmp/ansible-cfg-qa7-0123abcd''),
      Cmd [''ansible-playbook'', ''initial_setup.yml'',
           ''--private-key'', ''/home/ops/.ssh/bootstrap_key'',
           ''--limit'', ''qa7.aopstest.com'',
           ''--vault-password-file'', ''/home/ops/.aops_ansible_vault_pw'',
           ''--ssh-common-args'',
           ''-o UserKnownHostsFile=/dev/null -o StrictHostKeyChecking=no'']
        (Some ''/tmp/ansible-cfg-qa7-0123abcd''),
      Cmd [''ansible-playbook'', ''web_setup.yml'',
           ''--private-key'', ''/home/ops/.ssh/ansible_control_key'',
           ''--limit'', ''qa7.aopstest.com'',
           ''--vault-password-file'', ''/home/ops/.aops_ansible_vault_pw'',
           ''--ssh-common-args'',
           ''-o UserKnownHostsFile=/dev/null -o StrictHostKeyChecking=no'']
        (Some ''/tmp/ansible-cfg-qa7-0123abcd''),
      Cmd [''ssh-import-db.sh'', ''qa7.aopstest.com''] None]"
    by code_simp
  have r2: "new_commands (destroy_main ?X (token_invocation ''qa7'')) standing_world =
     [Cmd [''terraform'', ''init'']
        (Some ''/tmp/terramate-cloud-qa7-0123abcd/stacks/accounts/aops_dev.487718497406/qa7.aopstest.com''),
      Cmd [''terraform'', ''destroy'', ''-auto-approve'']
        (Some ''/tmp/terramate-cloud-qa7-0123abcd/stacks/accounts/aops_dev.487718497406/qa7.aopstest.com''),
      Cmd [''git'', ''add'', ''.''] (Some ''/tmp/terramate-cloud-qa7-0123abcd''),
      Cmd [''git'', ''commit'', ''-m'', ''Destroy test instance qa7.aopstest.com (remove stack)'']
        (Some ''/tmp/terramate-cloud-qa7-0123abcd''),
      Cmd [''git'', ''push'', ''origin'', ''main''] (Some ''/tmp/terramate-cloud-qa7-0123abcd''),
      Cmd [''yq'', ''eval'', ''.all.hosts | has('' @ [DQ] @ ''qa7.aopstest.com'' @ [DQ] @ '')'',
           ''/tmp/ansible-cfg-qa7-0123abcd/inventory.yml''] None,
      Cmd [''yq'', ''eval'', ''del(.all.hosts.'' @ [DQ] @ ''qa7.aopstest.com'' @ [DQ] @ '')'',
           ''-i'', ''/tmp/ansible-cfg-qa7-0123abcd/inventory.yml''] None,
      Cmd [''yq'', ''eval'', ''.host_emails | has('' @ [DQ] @ ''qa7.aopstest.com'' @ [DQ] @ '')'',
           ''/tmp/ansible-cfg-qa7-0123abcd/group_vars/all/emails.yml''] None,
      Cmd [''yq'', ''eval'', ''del(.host_emails.'' @ [DQ] @ ''qa7.aopstest.com'' @ [DQ] @ '')'',
           ''-i'', ''/tmp/ansible-cfg-qa7-0123abcd/group_vars/all/emails.yml''] None,
      Cmd [''git'', ''add'', ''/tmp/ansible-cfg-qa7-0123abcd/inventory.yml'',
           ''/tmp/ansible-cfg-qa7-0123abcd/group_vars/all/emails.yml'']
        (Some ''/tmp/ansible-cfg-qa7-0123abcd''),
      Cmd [''git'', ''commit'', ''-m'',
           ''Remove qa7.aopstest.com from host_emails in emails.yml and inventory.yml'']
        (Some ''/tmp/ansible-cfg-qa7-0123abcd''),
      Cmd [''git'', ''push'', ''origin'', ''simple''] (Some ''/tmp/ansible-cfg-qa7-0123abcd'')]"
    by code_simp
  have c3': "list_all (targets ''qa7.aopstest.com''
       ''/tmp/terramate-cloud-qa7-0123abcd/stacks/accounts/aops_dev.487718497406/qa7.aopstest.com'')
     (new_commands (create_main ?X (example_invocation ''qa7'')) working_world)"
    using c3 unfolding j1 by simp
  have d3': "list_all (targets ''qa7.aopstest.com''
       ''/tmp/terramate-cloud-qa7-0123abcd/stacks/accounts/aops_dev.487718497406/qa7.aopstest.com'')
     (new_commands (destroy_main ?X (token_invocation ''qa7'')) standing_world)"
    using d3 unfolding j2 by simp
  have c1': "create_hostname ''qa7'' = ''qa7.aopstest.com''" using c1 by simp
  have c2': "create_stack_path ''/tmp/tm'' ''qa7'' =
     ''/tmp/tm/stacks/accounts/aops_dev.487718497406/qa7.aopstest.com''"
    using c2 unfolding j by simp
  have d1': "destroy_hostname ''qa-7_b'' = ''qa-7_b.aopstest.com''" using d1 by simp
  have d2': "destroy_stack_path ''/tmp/tm'' ''qa-7_b'' =
     ''/tmp/tm/stacks/accounts/aops_dev.487718497406/qa-7_b.aopstest.com''"
    using d2 unfolding j by simp
  show ?thesis
    by (intro conjI h1 h2 c1' c2' d1' d2' r1 c3' r2 d3')
qed



lemma destroy_rejects_malformed_prefix:
  assumes "\<not> valid_destroy_prefix (arg_prefix a)"
  shows "exit_status (fst (destroy_main X a w)) = 1 \<and> trace (snd (destroy_main X a w)) = trace w"
  using assms
  by (simp add: destroy_main_def Let_def bind_def stderr_print_def raise_def)


text \<open>
  Claim C7 at a malformed prefix. The decommissioning script rejects it before any
  command; the provisioning script has no prefix check and starts \<open>git clone\<close> with the
  prefix in the path.
\<close>

theorem create_main_runs_on_malformed_prefix:
  "\<not> isalnum ''bad prefix!'' \<and>
   map command (trace (snd (create_main failing (example_invocation ''bad prefix!'') bare_world))) =
     [Cmd [''git'', ''clone'', ''git@github.com:aops-ba/terramate-cloud.git'',
           ''/tmp/terramate-cloud-bad prefix!-0123abcd''] None] \<and>
   trace (snd (destroy_main failing (example_invocation ''bad prefix!'') bare_world)) = []"
  by code_simp

section \<open>The provisioning pipeline stops at the first failing command\<close>

lemma orderlyI:
  assumes "\<And>w. \<exists>es. trace (snd (m w)) = trace w @ es \<and>
        (\<forall>e \<in> set es. program (command e) \<in> S) \<and>
        (\<forall>e \<in> set (butlast es). \<not> failed e) \<and>
        (case fst (m w) of
           Inr _ \<Rightarrow> \<forall>e \<in> set es. \<not> failed e
         | Inl x \<Rightarrow> \<forall>n. x \<noteq> SystemExit n)"
  shows "orderly S m"
  using assms unfolding orderly_def by blast

lemma orderlyD:
  assumes "orderly S m" and "m w = (r, w')"
  obtains es where "trace w' = trace w @ es"
    and "\<forall>e \<in> set es. program (command e) \<in> S"
    and "\<forall>e \<in> set (butlast es). \<not> failed e"
    and "case r of Inr _ \<Rightarrow> \<forall>e \<in> set es. \<not> failed e | Inl x \<Rightarrow> \<forall>n. x \<noteq> SystemExit n"
proof -
  from assms(1) obtain es where "trace (snd (m w)) = trace w @ es \<and>
        (\<forall>e \<in> set es. program (command e) \<in> S) \<and>
        (\<forall>e \<in> set (butlast es). \<not> failed e) \<and>
        (case fst (m w) of
           Inr _ \<Rightarrow> \<forall>e \<in> set es. \<not> failed e
         | Inl x \<Rightarrow> \<forall>n. x \<noteq> SystemExit n)"
    unfolding orderly_def by blast
  then show ?thesis using that assms(2) by simp
qed

lemma orderly_silent:
  assumes "\<And>w. trace (snd (m w)) = trace w"
      and "\<And>w n. fst (m w) \<noteq> Inl (SystemExit n)"
  shows "orderly S m"
proof (rule orderlyI)
  fix w
  have "case fst (m w) of Inr _ \<Rightarrow> \<forall>e \<in> set []. \<not> failed e | Inl x \<Rightarrow> \<forall>n. x \<noteq> SystemExit n"
    using assms(2) [of w] by (cases "fst (m w)") auto
  then show "\<exists>es. trace (snd (m w)) = trace w @ es \<and>
        (\<forall>e \<in> set es. program (command e) \<in> S) \<and>
        (\<forall>e \<in> set (butlast es). \<not> failed e) \<and>
        (case fst (m w) of
           Inr _ \<Rightarrow> \<forall>e \<in> set es. \<not> failed e
         | Inl x \<Rightarrow> \<forall>n. x \<noteq> SystemExit n)"
    using assms(1) [of w] by (intro exI [of _ "[]"]) simp
qed

lemma orderly_ret: "orderly S (ret a)"
  by (rule orderly_silent) (simp_all add: ret_def)

lemma orderly_raise: "(\<And>n. e \<noteq> SystemExit n) \<Longrightarrow> orderly S (raise e)"
  by (rule orderly_silent) (simp_all add: raise_def)

lemma orderly_lift: "(\<And>n. r \<noteq> Inl (SystemExit n)) \<Longrightarrow> orderly S (lift r)"
  by (rule orderly_silent) (simp_all add: lift_def)

lemma orderly_read_text: "orderly S (read_text p)"
  by (rule orderly_silent) (simp_all add: read_text_def split: option.splits)

lemma orderly_write_text: "orderly S (write_text p s)"
  by (rule orderly_silent) (simp_all add: write_text_def)

lemma orderly_safe_load: "orderly S (safe_load p)"
  by (rule orderly_silent) (simp_all add: safe_load_def split: option.splits)

lemma orderly_safe_dump: "orderly S (safe_dump d p)"
  by (rule orderly_silent) (simp_all add: safe_dump_def)

lemma orderly_run: "program c \<in> S \<Longrightarrow> orderly S (run X c chk)"
proof (rule orderlyI)
  fix w
  assume "program c \<in> S"
  then show "\<exists>es. trace (snd (run X c chk w)) = trace w @ es \<and>
        (\<forall>e \<in> set es. program (command e) \<in> S) \<and>
        (\<forall>e \<in> set (butlast es). \<not> failed e) \<and>
        (case fst (run X c chk w) of
           Inr _ \<Rightarrow> \<forall>e \<in> set es. \<not> failed e
         | Inl x \<Rightarrow> \<forall>n. x \<noteq> SystemExit n)"
    by (intro exI [of _ "[Event c chk (returncode (fst (X c w)))]"])
       (auto simp: run_def Let_def failed_def split: prod.splits)
qed

lemma orderly_bind:
  assumes "orderly S m" and "\<And>a. orderly S (k a)"
  shows "orderly S (bind m k)"
proof (rule orderlyI)
  fix w
  obtain r1 w1 where m: "m w = (r1, w1)" by (cases "m w")
  from orderlyD [OF assms(1) m] obtain es1 where
    t1: "trace w1 = trace w @ es1"
    and p1: "\<forall>e \<in> set es1. program (command e) \<in> S"
    and b1: "\<forall>e \<in> set (butlast es1). \<not> failed e"
    and r1: "case r1 of Inr _ \<Rightarrow> \<forall>e \<in> set es1. \<not> failed e | Inl x \<Rightarrow> \<forall>n. x \<noteq> SystemExit n"
    by blast
  show "\<exists>es. trace (snd (bind m k w)) = trace w @ es \<and>
        (\<forall>e \<in> set es. program (command e) \<in> S) \<and>
        (\<forall>e \<in> set (butlast es). \<not> failed e) \<and>
        (case fst (bind m k w) of
           Inr _ \<Rightarrow> \<forall>e \<in> set es. \<not> failed e
         | Inl x \<Rightarrow> \<forall>n. x \<noteq> SystemExit n)"
  proof (cases r1)
    case (Inl x)
    then have "bind m k w = (Inl x, w1)" using m by (simp add: bind_def)
    then show ?thesis using t1 p1 b1 r1 Inl by (intro exI [of _ es1]) simp
  next
    case (Inr a)
    obtain r2 w2 where k: "k a w1 = (r2, w2)" by (cases "k a w1")
    from orderlyD [OF assms(2) k] obtain es2 where
      t2: "trace w2 = trace w1 @ es2"
      and p2: "\<forall>e \<in> set es2. program (command e) \<in> S"
      and b2: "\<forall>e \<in> set (butlast es2). \<not> failed e"
      and r2: "case r2 of Inr _ \<Rightarrow> \<forall>e \<in> set es2. \<not> failed e | Inl x \<Rightarrow> \<forall>n. x \<noteq> SystemExit n"
      by blast
    have res: "bind m k w = (r2, w2)" using m k Inr by (simp add: bind_def)
    have n1: "\<forall>e \<in> set es1. \<not> failed e" using r1 Inr by simp
    have bl: "\<forall>e \<in> set (butlast (es1 @ es2)). \<not> failed e"
      using n1 b1 b2 by (auto simp: butlast_append split: if_splits)
    have "case r2 of Inr _ \<Rightarrow> \<forall>e \<in> set (es1 @ es2). \<not> failed e
                   | Inl x \<Rightarrow> \<forall>n. x \<noteq> SystemExit n"
      using r2 n1 by (cases r2) auto
    then show ?thesis using res t1 t2 p1 p2 bl by (intro exI [of _ "es1 @ es2"]) auto
  qed
qed

lemma orderly_if: "orderly S m \<Longrightarrow> orderly S n \<Longrightarrow> orderly S (if b then m else n)"
  by simp

lemma orderly_cond:
  "orderly S m \<Longrightarrow> orderly S n \<Longrightarrow> orderly S (\<lambda>w. if c w then m w else n w)"
  unfolding orderly_def by simp

lemma orderly_when: "orderly S m \<Longrightarrow> orderly S (py_when c m)"
proof -
  assume "orderly S m"
  then have "orderly S (bind m (\<lambda>_. ret ()))"
    by (intro orderly_bind orderly_ret)
  then have "orderly S (\<lambda>w. if c w then bind m (\<lambda>_. ret ()) w else ret () w)"
    by (intro orderly_cond orderly_ret)
  then show ?thesis by (simp add: py_when_def [abs_def])
qed

lemma orderly_mono: "orderly S m \<Longrightarrow> S \<subseteq> T \<Longrightarrow> orderly T m"
  unfolding orderly_def by (meson subsetD)

lemma py_in_no_exit: "py_in k d \<noteq> Inl (SystemExit n)"
  by (cases d) simp_all

lemma py_getitem_no_exit: "py_getitem d k \<noteq> Inl (SystemExit n)"
  by (cases d) (simp_all split: option.splits)

lemma py_setitem_no_exit: "py_setitem d k v \<noteq> Inl (SystemExit n)"
  by (cases d) simp_all

lemmas orderly_intros =
  orderly_bind orderly_ret orderly_run orderly_if orderly_cond orderly_when
  orderly_read_text orderly_write_text orderly_safe_load orderly_safe_dump
  orderly_lift orderly_raise

lemma orderly_clone_terramate_repo: "orderly {''git''} (clone_terramate_repo X u p)"
  unfolding clone_terramate_repo_def
  by (intro orderly_intros) (simp_all add: program_def)

lemma orderly_clone_ansible_repo: "orderly {''git''} (clone_ansible_repo X u p b)"
  unfolding clone_ansible_repo_def
  by (intro orderly_intros) (simp_all add: program_def)

lemma orderly_add_host_to_inventory: "orderly S (add_host_to_inventory self h)"
  unfolding add_host_to_inventory_def
  by (intro orderly_intros)

lemma orderly_add_email_for_host: "orderly S (add_email_for_host self h e)"
  unfolding add_email_for_host_def
  by (intro orderly_intros) (simp_all add: py_in_no_exit py_getitem_no_exit py_setitem_no_exit)

lemma orderly_ensure_host: "orderly {''git''} (ensure_host X self h e)"
  unfolding ensure_host_def
  by (intro orderly_intros orderly_add_host_to_inventory orderly_add_email_for_host)
     (simp_all add: program_def)

lemma orderly_create_and_apply:
  "orderly {''git'', ''terramate'', ''terraform''}
     (create_and_apply_terraform_stack X sp tp pfx h tf ci)"
  unfolding create_and_apply_terraform_stack_def
  by (intro orderly_intros) (simp_all add: program_def)

lemma orderly_add_to_ansible_inventory:
  "orderly {''git''} (add_to_ansible_inventory X root h e)"
  unfolding add_to_ansible_inventory_def
  by (intro orderly_intros orderly_ensure_host)

lemma orderly_run_ansible:
  "orderly {''ansible-playbook''} (run_ansible X root h k1 k2 v)"
  unfolding run_ansible_def
  by (intro orderly_intros) (simp_all add: program_def)

lemma orderly_import_db: "orderly {''ssh-import-db.sh''} (import_db X h)"
  unfolding import_db_def
  by (intro orderly_intros) (simp_all add: program_def)

lemma orderly_tones:
  "orderly {''play''} m \<Longrightarrow>
   orderly {''play''}
     (fold (\<lambda>freq m.
          bind m (\<lambda>_. bind (run X (Cmd [''play'', ''-q'', ''-n'', ''synth'', ''0.1'', ''sin'', freq]
                                  None) False) (\<lambda>_. ret ())))
        freqs m)"
proof (induction freqs arbitrary: m)
  case Nil
  then show ?case by simp
next
  case (Cons f fs)
  have "orderly {''play''}
          (bind m (\<lambda>_. bind (run X (Cmd [''play'', ''-q'', ''-n'', ''synth'', ''0.1'', ''sin'', f]
                                  None) False) (\<lambda>_. ret ())))"
    using Cons.prems by (intro orderly_intros) (simp_all add: program_def)
  then show ?case using Cons.IH by simp
qed

lemma orderly_play_tones: "orderly {''play''} (play_tones X freqs)"
  unfolding play_tones_def
  by (intro orderly_when orderly_tones orderly_ret)

lemma bind_assoc: "bind (bind m f) g = bind m (\<lambda>x. bind (f x) g)"
  by (rule ext) (simp add: bind_def split: prod.splits sum.splits)

lemma orderly_failure:
  assumes "orderly S m" and "m w = (r, w')"
      and "trace w' = trace w @ pre @ e # post" and "failed e"
  shows "post = [] \<and> (\<exists>x. r = Inl x \<and> (\<forall>n. x \<noteq> SystemExit n)) \<and>
         (\<forall>e' \<in> set (pre @ e # post). program (command e') \<in> S)"
proof -
  from orderlyD [OF assms(1,2)] obtain es where
    t: "trace w' = trace w @ es"
    and p: "\<forall>e \<in> set es. program (command e) \<in> S"
    and b: "\<forall>e \<in> set (butlast es). \<not> failed e"
    and r: "case r of Inr _ \<Rightarrow> \<forall>e \<in> set es. \<not> failed e | Inl x \<Rightarrow> \<forall>n. x \<noteq> SystemExit n"
    by blast
  have es: "es = pre @ e # post" using t assms(3) by simp
  have "post = []"
  proof (rule ccontr)
    assume "post \<noteq> []"
    then have "e \<in> set (butlast es)" by (simp add: es butlast_append)
    then show False using b assms(4) by blast
  qed
  moreover have "\<exists>x. r = Inl x \<and> (\<forall>n. x \<noteq> SystemExit n)"
    using r assms(4) es by (cases r) auto
  ultimately show ?thesis using p es by simp
qed

lemma try_or_exit_raised:
  assumes "m w = (Inl x, w')" and "\<forall>n. x \<noteq> SystemExit n"
  shows "try_or_exit m w = (Inl (SystemExit 1), w')"
  using assms by (cases x) (simp_all add: try_or_exit_def)

lemma create_main_split:
  "create_main X a = try_or_exit (bind (provisioning_head X a) (\<lambda>_. provisioning_tail X a))"
  by (simp add: create_main_def provisioning_head_def provisioning_tail_def Let_def bind_assoc)

lemma orderly_provisioning_head:
  "orderly {''git'', ''terramate'', ''terraform''} (provisioning_head X a)"
  unfolding provisioning_head_def Let_def
  by (intro orderly_bind orderly_when orderly_create_and_apply
        orderly_mono [OF orderly_clone_terramate_repo]
        orderly_mono [OF orderly_clone_ansible_repo]) simp_all

lemma orderly_provisioning_tail:
  "orderly {''git'', ''ansible-playbook'', ''ssh-import-db.sh'', ''play''}
     (provisioning_tail X a)"
  unfolding provisioning_tail_def Let_def
  by (intro orderly_bind
        orderly_mono [OF orderly_add_to_ansible_inventory]
        orderly_mono [OF orderly_run_ansible]
        orderly_mono [OF orderly_import_db]
        orderly_mono [OF orderly_play_tones]) simp_all

lemma early_not_late_stage:
  "p \<in> early_programs \<Longrightarrow> p \<notin> {''ansible-playbook'', ''ssh-import-db.sh''}"
  by (auto simp: early_programs_def)

lemma late_not_terraform: "p \<in> late_programs \<Longrightarrow> p \<noteq> ''terraform''"
  by (auto simp: late_programs_def)

lemma orderly_head: "orderly early_programs (provisioning_head X a)"
  unfolding early_programs_def by (rule orderly_provisioning_head)

lemma orderly_tail: "orderly late_programs (provisioning_tail X a)"
  unfolding late_programs_def by (rule orderly_provisioning_tail)

lemma orderly_body:
  "orderly (early_programs \<union> late_programs)
     (bind (provisioning_head X a) (\<lambda>_. provisioning_tail X a))"
proof -
  have "orderly (early_programs \<union> late_programs) (provisioning_head X a)"
    by (rule orderly_mono [OF orderly_head]) (rule Un_upper1)
  moreover have "orderly (early_programs \<union> late_programs) (provisioning_tail X a)"
    by (rule orderly_mono [OF orderly_tail]) (rule Un_upper2)
  ultimately show ?thesis by (intro orderly_bind)
qed

lemma create_main_failure:
  assumes tr: "trace (snd (create_main X a w)) = trace w @ pre @ e # post"
      and fe: "failed e"
  shows "post = [] \<and> exit_status (fst (create_main X a w)) = 1"
proof -
  let ?body = "bind (provisioning_head X a) (\<lambda>_. provisioning_tail X a)"
  obtain r w' where body: "?body w = (r, w')" by (cases "?body w")
  have "trace (snd (create_main X a w)) = trace w'"
    unfolding create_main_split try_or_exit_trace body by simp
  then have tw: "trace w' = trace w @ pre @ e # post"
    using tr by simp
  from orderly_failure [OF orderly_body body tw fe] obtain x where
    post: "post = []" and r: "r = Inl x" and nx: "\<forall>n. x \<noteq> SystemExit n"
    by blast
  have "try_or_exit ?body w = (Inl (SystemExit 1), w')"
    using body r nx by (intro try_or_exit_raised) simp_all
  then have "exit_status (fst (create_main X a w)) = 1"
    unfolding create_main_split by simp
  then show ?thesis using post by simp
qed

lemma terraform_failure_is_early:
  assumes tr: "trace (snd (create_main X a w)) = trace w @ pre @ [e]"
      and fe: "failed e"
      and terraform: "program (command e) = ''terraform''"
  shows "\<forall>e' \<in> set pre. program (command e') \<in> early_programs"
proof -
  let ?head = "provisioning_head X a"
  let ?tail = "provisioning_tail X a"
  let ?body = "bind ?head (\<lambda>_. ?tail)"
  obtain r w' where body: "?body w = (r, w')" by (cases "?body w")
  have "trace (snd (create_main X a w)) = trace w'"
    unfolding create_main_split try_or_exit_trace body by simp
  then have tw: "trace w' = trace w @ pre @ [e]"
    using tr by simp
  obtain r1 w1 where head: "?head w = (r1, w1)" by (cases "?head w")
  from orderlyD [OF orderly_head head] obtain es1 where
    t1: "trace w1 = trace w @ es1"
    and p1: "\<forall>e \<in> set es1. program (command e) \<in> early_programs"
    and b1: "\<forall>e \<in> set (butlast es1). \<not> failed e"
    and r1: "case r1 of Inr _ \<Rightarrow> \<forall>e \<in> set es1. \<not> failed e
                      | Inl x \<Rightarrow> \<forall>n. x \<noteq> SystemExit n"
    by blast
  show ?thesis
  proof (cases r1)
    case (Inl y)
    then have "?body w = (Inl y, w1)" using head by (simp add: bind_def)
    then have "w' = w1" using body by simp
    then have "es1 = pre @ [e]" using tw t1 by simp
    then show ?thesis using p1 by simp
  next
    case (Inr v)
    then have n1: "\<forall>e \<in> set es1. \<not> failed e" using r1 by simp
    have "?tail w1 = (r, w')" using head Inr body by (simp add: bind_def)
    from orderlyD [OF orderly_tail this] obtain es2 where
      t2: "trace w' = trace w1 @ es2"
      and p2: "\<forall>e \<in> set es2. program (command e) \<in> late_programs"
      and b2: "\<forall>e \<in> set (butlast es2). \<not> failed e"
      and r2: "case r of Inr _ \<Rightarrow> \<forall>e \<in> set es2. \<not> failed e
                      | Inl x \<Rightarrow> \<forall>n. x \<noteq> SystemExit n"
      by blast
    have split: "es1 @ es2 = pre @ [e]" using tw t1 t2 by simp
    have ne: "es2 \<noteq> []"
    proof
      assume "es2 = []"
      then have "e \<in> set es1" using split by simp
      then show False using n1 fe by blast
    qed
    then have "last (es1 @ es2) = last es2" by simp
    then have "last es2 = e" using split by simp
    then have "e \<in> set es2" using ne last_in_set by blast
    then have "program (command e) \<in> late_programs" using p2 by blast
    then have "program (command e) \<noteq> ''terraform''" by (rule late_not_terraform)
    then show ?thesis using terraform by simp
  qed
qed

text \<open>
  Claim C2. Take any run of the provisioning script, in any external world, and any
  command in its trace that was run with failure checking and ended with a status other
  than zero. Then it is the last command the run started (no later command of this or
  of any later stage runs) and the process exits with status 1. In particular, when the
  failing command is a Terraform command (\<open>terraform apply\<close>, or \<open>terraform init\<close>),
  no \<open>ansible-playbook\<close> and no \<open>ssh-import-db.sh\<close> command was started at all.
\<close>

theorem failing_command_stops_pipeline:
  assumes tr: "trace (snd (create_main X a w)) = trace w @ pre @ e # post"
      and chk: "checked e" and st: "status e \<noteq> 0"
  shows "post = [] \<and> exit_status (fst (create_main X a w)) = 1 \<and>
         (program (command e) = ''terraform'' \<longrightarrow>
            (\<forall>e' \<in> set pre. program (command e') \<notin> {''ansible-playbook'', ''ssh-import-db.sh''}))"
proof (intro conjI impI ballI)
  have fe: "failed e" using chk st by (simp add: failed_def)
  have one: "post = [] \<and> exit_status (fst (create_main X a w)) = 1"
    using tr fe by (rule create_main_failure)
  show "post = []" using one by (rule conjunct1)
  show "exit_status (fst (create_main X a w)) = 1" using one by (rule conjunct2)
  fix e'
  assume terraform: "program (command e) = ''terraform''" and e': "e' \<in> set pre"
  have "post = []" using one by (rule conjunct1)
  then have "trace (snd (create_main X a w)) = trace w @ pre @ [e]"
    using tr by simp
  then have "\<forall>e' \<in> set pre. program (command e') \<in> early_programs"
    using fe terraform by (rule terraform_failure_is_early)
  then have "program (command e') \<in> early_programs" using e' by (rule bspec)
  then show "program (command e') \<notin> {''ansible-playbook'', ''ssh-import-db.sh''}"
    by (rule early_not_late_stage)
qed

theorem failing_command_stops_pipeline_witness:
  "map (\<lambda>e. (program (command e), checked e, status e))
     (trace (snd (create_main failing_apply (example_invocation ''qa7'') provision_world))) =
     [(''git'', True, 0), (''git'', True, 0), (''git'', True, 0), (''git'', True, 0),
      (''git'', False, 0), (''git'', True, 0), (''terraform'', True, 0),
      (''terraform'', True, 1)] \<and>
   exit_status (fst (create_main failing_apply (example_invocation ''qa7'') provision_world)) = 1"
proof -
  let ?run = "create_main failing_apply (example_invocation ''qa7'') provision_world"
  have full: "map (\<lambda>e. (program (command e), checked e, status e)) (trace (snd ?run)) =
     [(''git'', True, 0), (''git'', True, 0), (''git'', True, 0), (''git'', True, 0),
      (''git'', False, 0), (''git'', True, 0), (''terraform'', True, 0),
      (''terraform'', True, 1)]"
    by code_simp
  have ne: "trace (snd ?run) \<noteq> []"
    using full by auto
  have t0: "trace provision_world = []"
    by (simp add: provision_world_def bare_world_def)
  have h1: "trace (snd ?run) =
      trace provision_world @ butlast (trace (snd ?run)) @ last (trace (snd ?run)) # []"
    using ne by (simp add: t0)
  have h2: "checked (last (trace (snd ?run)))"
    by code_simp
  have h3: "status (last (trace (snd ?run))) \<noteq> 0"
    by code_simp
  have "exit_status (fst ?run) = 1"
    using failing_command_stops_pipeline [OF h1 h2 h3] by (rule conjunct2 [THEN conjunct1])
  then show ?thesis using full by (rule conjI [rotated])
qed

end
